theory Spec2Isabelle
  imports Main "HOL-Library.Sublist" "HOL-Library.Word"
begin

section \<open>Data model of idb/client/grpc.py\<close>

type_synonym bytes = "8 word list"

text \<open>The \<open>InstallRequest\<close> destination enum.\<close>

datatype destination = APP | XCTEST | DYLIB | DSYM | FRAMEWORK

text \<open>The protobuf \<open>Payload\<close> message: exactly one of \<open>url\<close>, \<open>file_path\<close>, \<open>data\<close>.\<close>

datatype payload = Url string | File_path string | Data bytes

datatype hid_event = HIDEvent nat

text \<open>
  The request messages the client constructs. \<open>InstallRequest\<close> and \<open>PushRequest\<close> are
  built either from their metadata field or from a payload, so each has two constructors.
  \<open>PullRequest\<close> carries \<open>bundle_id\<close>, \<open>src_path\<close> and an optional \<open>dst_path\<close>.
\<close>

datatype request =
    InstallRequest_destination destination
  | InstallRequest_payload payload
  | PushRequest_inner string string
  | PushRequest_payload payload
  | PullRequest string string "string option"
  | AddMediaRequest payload
  | ContactsUpdateRequest payload
  | HIDEventRequest hid_event

datatype response = Response (resp_name: string) (resp_uuid: string) (resp_data: bytes)

datatype installed_artifact = InstalledArtifact string string

text \<open>\<open>Bundle = Union[str, IO[bytes]]\<close>; the code inspects the variant with \<open>isinstance\<close>.\<close>

datatype Bundle = Str string | IO bytes

text \<open>
  Exceptions. \<open>GRPCError\<close> carries its \<open>message\<close>; \<open>ProtocolError\<close> and
  \<open>StreamTerminatedError\<close> carry their \<open>args\<close> tuple. \<open>IdbException\<close> is constructed
  from either of the two, so its argument is a string or a tuple.
\<close>

datatype exc_arg = Message string | Args "string list"

datatype exn =
    GRPCError string
  | ProtocolError "string list"
  | StreamTerminatedError "string list"
  | IdbException exc_arg
  | FileNotFoundError string
  | NotADirectoryError string
  | RuntimeError string
  | ValueError string
  | AttributeError string
  | OtherError string

text \<open>
  An asynchronous generator: it ends, yields an item and continues, or raises while
  producing the next item. Only generators that stop after finitely many items are
  covered; draining an endless one would not return.
\<close>

datatype 'a gen = Done | Yield 'a "'a gen" | Raise exn

record companion_info =
  host :: string
  port :: nat
  is_local :: bool

text \<open>
  What the operations read from outside the client:
  \<^item> the result of \<open>direct_companion_manager.get_companion_info\<close>, which may raise;
  \<^item> the scheme that \<open>urllib.parse.urlparse\<close> finds in a string (empty when there is
    none), or the exception it raises (a \<open>ValueError\<close> on a malformed string);
  \<^item> the absolute path that \<open>Path(s).resolve(strict=True)\<close> returns, or the exception it
    raises: \<open>FileNotFoundError\<close> when nothing exists at the path, \<open>NotADirectoryError\<close>
    when a component is a regular file, \<open>RuntimeError\<close> on a symlink loop, and so on;
  \<^item> the archive records that the filesystem holds for a top-level path (with or without
    its own subfolder), and the block sizes of the two chunkers;
  \<^item> what the archive generator yields when it is given no path at all, which neither the
    code under src/ nor the specification fixes;
  \<^item> the verdict of the unpacker on a received archive.
\<close>

record env =
  get_companion_info :: "exn + companion_info"
  urlparse_scheme :: "string \<Rightarrow> exn + string"
  resolve_strict :: "string \<Rightarrow> exn + string"
  archive_records :: "bool \<Rightarrow> string \<Rightarrow> exn + bytes"
  empty_tar :: "bytes gen"
  block_size :: nat
  chunk_size :: nat
  unpack_error :: "bytes list \<Rightarrow> string \<Rightarrow> exn option"

section \<open>The transport\<close>

datatype rpc = Install | Push | Pull | Add_media | Contacts_update | Hid

text \<open>
  The primitives of the RPC transport that the client calls: opening a stream
  (\<open>async with stub.m.open()\<close>), \<open>send_message\<close>, \<open>end\<close>, \<open>recv_message\<close>, leaving the
  \<open>async with\<close> block, and a unary call \<open>await stub.m(request)\<close>. \<open>Unpack\<close> records a
  chunk written by the receiving side of \<open>pull\<close> into the destination path.
\<close>

datatype event =
    Open rpc
  | Send request
  | End
  | Recv
  | Close
  | Unary rpc request
  | Unpack string bytes

text \<open>
  The world the client runs in: the script of transport faults (the n-th fallible primitive
  raises the n-th entry, if any; an exhausted script means no further fault) and the
  messages the companion will send back.
\<close>

record world =
  fault_script :: "exn option list"
  inbox :: "response list"

text \<open>
  An awaited operation yields its result (or the exception it raised), the transport
  primitives it called, in order, and the world it leaves.
\<close>

type_synonym 'a io = "world \<Rightarrow> (exn + 'a) \<times> event list \<times> world"

definition return_io :: "'a \<Rightarrow> 'a io" where
  "return_io a = (\<lambda>w. (Inr a, [], w))"

definition raise_io :: "exn \<Rightarrow> 'a io" where
  "raise_io e = (\<lambda>w. (Inl e, [], w))"

definition bind_io :: "'a io \<Rightarrow> ('a \<Rightarrow> 'b io) \<Rightarrow> 'b io" where
  "bind_io m k = (\<lambda>w.
     (case m w of
        (Inl e, t, w') \<Rightarrow> (Inl e, t, w')
      | (Inr a, t, w') \<Rightarrow> (case k a w' of (r, t', w'') \<Rightarrow> (r, t @ t', w''))))"

text \<open>One fallible primitive: the call is logged, and the next entry of the fault script
  decides whether it raises.\<close>

definition step :: "event \<Rightarrow> unit io" where
  "step ev = (\<lambda>w.
     (case fault_script w of
        [] \<Rightarrow> (Inr (), [ev], w)
      | None # fs \<Rightarrow> (Inr (), [ev], w\<lparr>fault_script := fs\<rparr>)
      | Some e # fs \<Rightarrow> (Inl e, [ev], w\<lparr>fault_script := fs\<rparr>)))"

definition send_message :: "request \<Rightarrow> unit io" where
  "send_message r = step (Send r)"

definition end_stream :: "unit io" where
  "end_stream = step End"

text \<open>\<open>recv_message\<close> returns the next message, or \<open>None\<close> when the companion has ended the stream.\<close>

definition recv_message :: "(response option) io" where
  "recv_message = (\<lambda>w.
     (case step Recv w of
        (Inl e, t, w') \<Rightarrow> (Inl e, t, w')
      | (Inr _, t, w') \<Rightarrow>
          (case inbox w' of
             [] \<Rightarrow> (Inr None, t, w')
           | r # rs \<Rightarrow> (Inr (Some r), t, w'\<lparr>inbox := rs\<rparr>))))"

definition unary_call :: "rpc \<Rightarrow> request \<Rightarrow> unit io" where
  "unary_call m r = step (Unary m r)"

text \<open>
  \<open>async with stub.m.open() as stream: body\<close>. If opening raises, the body does not run;
  otherwise the stream is closed on every exit of the body.
\<close>

definition with_stream :: "rpc \<Rightarrow> 'a io \<Rightarrow> 'a io" where
  "with_stream m body = (\<lambda>w.
     (case step (Open m) w of
        (Inl e, t, w1) \<Rightarrow> (Inl e, t, w1)
      | (Inr _, t, w1) \<Rightarrow>
          (case body w1 of (res, t', w2) \<Rightarrow> (res, t @ t' @ [Close], w2))))"

definition result_of :: "(exn + 'a) \<times> event list \<times> world \<Rightarrow> exn + 'a" where
  "result_of x = fst x"

definition events_of :: "(exn + 'a) \<times> event list \<times> world \<Rightarrow> event list" where
  "events_of x = fst (snd x)"

section \<open>Generators\<close>

fun gen_items :: "'a gen \<Rightarrow> 'a list" where
  "gen_items Done = []"
| "gen_items (Yield x g) = x # gen_items g"
| "gen_items (Raise e) = []"

fun gen_raises :: "'a gen \<Rightarrow> exn option" where
  "gen_raises Done = None"
| "gen_raises (Yield x g) = gen_raises g"
| "gen_raises (Raise e) = Some e"

fun gen_of_list :: "'a list \<Rightarrow> 'a gen" where
  "gen_of_list [] = Done"
| "gen_of_list (x # xs) = Yield x (gen_of_list xs)"

text \<open>Modelled from the spec: \<open>idb.common.stream.stream_map\<close> is not under src/; it applies
  the function to each item of the sequence, in order.\<close>

fun stream_map :: "'a gen \<Rightarrow> ('a \<Rightarrow> 'b) \<Rightarrow> 'b gen" where
  "stream_map Done f = Done"
| "stream_map (Yield x g) f = Yield (f x) (stream_map g f)"
| "stream_map (Raise e) f = Raise e"

text \<open>Modelled from the spec: \<open>idb.common.install.generate_requests\<close> is not under src/; it
  yields the given requests in order.\<close>

definition generate_requests :: "request list \<Rightarrow> request gen" where
  "generate_requests rs = gen_of_list rs"

text \<open>Modelled from the spec: the ContentChunker (4.4) is not under src/. It reads blocks of
  at most \<open>n\<close> bytes until a read returns nothing; the final chunk may be shorter.\<close>

function chunk_bytes :: "nat \<Rightarrow> bytes \<Rightarrow> bytes list" where
  "chunk_bytes n bs =
     (if take n bs = [] then [] else take n bs # chunk_bytes n (drop n bs))"
  by pat_completeness auto
termination
  by (relation "measure (\<lambda>(n, bs). length bs)") auto

declare chunk_bytes.simps [simp del]

text \<open>Modelled from the spec: \<open>idb.common.install.generate_io_chunks\<close> is not under src/; it
  hands the byte source to the ContentChunker and wraps each chunk as a data payload.\<close>

definition generate_io_chunks :: "env \<Rightarrow> bytes \<Rightarrow> request gen" where
  "generate_io_chunks env io =
     gen_of_list (map (\<lambda>chunk. InstallRequest_payload (Data chunk)) (chunk_bytes (chunk_size env) io))"

text \<open>Modelled from the spec: the TarContainerCodec pack (4.3) is not under src/. The archive
  is the concatenation, in input order, of the records of each top-level path; reading a
  path may fail.\<close>

fun pack :: "env \<Rightarrow> bool \<Rightarrow> string list \<Rightarrow> exn + bytes" where
  "pack env place_in_subfolders [] = Inr []"
| "pack env place_in_subfolders (p # ps) =
     (case archive_records env place_in_subfolders p of
        Inl e \<Rightarrow> Inl e
      | Inr rec \<Rightarrow>
          (case pack env place_in_subfolders ps of
             Inl e \<Rightarrow> Inl e
           | Inr rest \<Rightarrow> Inr (rec @ rest)))"

text \<open>Modelled from the spec: \<open>idb.common.tar.generate_tar\<close> is not under src/; it yields the
  packed archive in blocks of bounded size. What it yields for an empty list of paths is
  left open by the specification (an open question of its design notes), so that case is
  read from the environment.\<close>

definition generate_tar :: "env \<Rightarrow> string list \<Rightarrow> bool \<Rightarrow> bytes gen" where
  "generate_tar env paths place_in_subfolders =
     (if paths = [] then empty_tar env
      else
        (case pack env place_in_subfolders paths of
           Inl e \<Rightarrow> Raise e
         | Inr archive \<Rightarrow> gen_of_list (chunk_bytes (block_size env) archive)))"

text \<open>Modelled from the spec: \<open>idb.common.tar.create_tar\<close> is not under src/; it returns the
  whole packed archive as one byte string.\<close>

definition create_tar :: "env \<Rightarrow> string list \<Rightarrow> bytes io" where
  "create_tar env paths =
     (case pack env False paths of Inl e \<Rightarrow> raise_io e | Inr archive \<Rightarrow> return_io archive)"

text \<open>Modelled from the spec: \<open>idb.common.install.generate_binary_chunks\<close> is not under src/;
  the decision table (4.1) hands the path to the archive codec and streams the chunks,
  whatever the destination.\<close>

definition generate_binary_chunks :: "env \<Rightarrow> string \<Rightarrow> destination \<Rightarrow> request gen" where
  "generate_binary_chunks env path destination =
     stream_map (generate_tar env [path] False) (\<lambda>chunk. InstallRequest_payload (Data chunk))"

text \<open>Modelled from the spec: \<open>idb.ipc.mapping.hid.event_to_grpc\<close> is not under src/; it is a
  one-to-one translation of an input event into a frame.\<close>

definition event_to_grpc :: "hid_event \<Rightarrow> request" where
  "event_to_grpc ev = HIDEventRequest ev"

section \<open>Draining\<close>

text \<open>\<open>async for message in generator: await stream.send_message(message)\<close>\<close>

fun drain_sends :: "request gen \<Rightarrow> unit io" where
  "drain_sends Done = return_io ()"
| "drain_sends (Yield r g) = bind_io (send_message r) (\<lambda>_. drain_sends g)"
| "drain_sends (Raise e) = raise_io e"

text \<open>Modelled from the spec: \<open>idb.grpc.stream.drain_to_stream\<close> is not under src/. The
  ChunkedStreamDrain (4.2) sends each frame in order, signals end-of-stream, then performs
  one receive and returns the terminal response.\<close>

definition drain_to_stream :: "request gen \<Rightarrow> (response option) io" where
  "drain_to_stream generator =
     bind_io (drain_sends generator) (\<lambda>_.
     bind_io end_stream (\<lambda>_.
     recv_message))"

text \<open>\<open>for x in xs: await stream.send_message(f x)\<close>\<close>

fun send_each :: "request list \<Rightarrow> unit io" where
  "send_each [] = return_io ()"
| "send_each (r # rs) = bind_io (send_message r) (\<lambda>_. send_each rs)"

text \<open>Modelled from the spec: \<open>idb.grpc.stream.generate_bytes\<close> and
  \<open>idb.common.tar.drain_untar\<close> are not under src/. The client receives until the companion
  ends the stream and writes each chunk into the destination as it arrives; a corrupt
  archive is reported when the stream has ended.\<close>

function drain_untar :: "env \<Rightarrow> string \<Rightarrow> bytes list \<Rightarrow> unit io" where
  "drain_untar env output_path seen w =
     (case recv_message w of
        (Inl e, t, w') \<Rightarrow> (Inl e, t, w')
      | (Inr None, t, w') \<Rightarrow>
          (case unpack_error env (rev seen) output_path of
             Some e \<Rightarrow> (Inl e, t, w')
           | None \<Rightarrow> (Inr (), t, w'))
      | (Inr (Some r), t, w') \<Rightarrow>
          (case drain_untar env output_path (resp_data r # seen) w' of
             (res, t', w'') \<Rightarrow> (res, t @ Unpack output_path (resp_data r) # t', w'')))"
  by pat_completeness auto
termination
  by (relation "measure (\<lambda>(env, p, seen, w). length (inbox w))")
     (auto simp: recv_message_def step_def split: list.splits option.splits)

declare drain_untar.simps [simp del]

section \<open>The client operations\<close>

text \<open>
  Calling an \<open>async def\<close> runs nothing: it returns a coroutine object, whose body runs
  when the caller awaits it.
\<close>

datatype 'a coroutine = Coroutine "world \<Rightarrow> (exn + 'a) \<times> event list \<times> world"

fun await :: "'a coroutine \<Rightarrow> 'a io" where
  "await (Coroutine body) = body"

text \<open>
  \<open>log_and_handle_exceptions\<close>: \<open>func_wrapper\<close> is a plain \<open>def\<close>. Inside its \<open>try\<close> it looks
  the companion up, builds channel and stub, and returns \<open>func(client, ...)\<close>, the coroutine
  object. The two \<open>except\<close> clauses translate what is raised inside the \<open>try\<close>.
\<close>

definition log_and_handle_exceptions ::
  "env \<Rightarrow> (companion_info \<Rightarrow> 'a io) \<Rightarrow> exn + 'a coroutine" where
  "log_and_handle_exceptions env func =
     (case (case get_companion_info env of
              Inl e \<Rightarrow> Inl e
            | Inr client \<Rightarrow> Inr (Coroutine (func client))) of
        Inl (GRPCError message) \<Rightarrow> Inl (IdbException (Message message))
      | Inl (ProtocolError args) \<Rightarrow> Inl (IdbException (Args args))
      | Inl (StreamTerminatedError args) \<Rightarrow> Inl (IdbException (Args args))
      | Inl e \<Rightarrow> Inl e
      | Inr coro \<Rightarrow> Inr coro)"

text \<open>Modelled from the spec: \<open>idb.common.logging.log_call\<close> is not under src/; logging has
  no decision logic, so the caller of a decorated method awaits what \<open>func_wrapper\<close> returns.\<close>

definition client_call :: "env \<Rightarrow> (companion_info \<Rightarrow> 'a io) \<Rightarrow> 'a io" where
  "client_call env func =
     (case log_and_handle_exceptions env func of
        Inl e \<Rightarrow> raise_io e
      | Inr coro \<Rightarrow> await coro)"

definition install_to_destination ::
  "env \<Rightarrow> companion_info \<Rightarrow> Bundle \<Rightarrow> destination \<Rightarrow> installed_artifact io" where
  "install_to_destination env self bundle destination =
     bind_io
       (case bundle of
          Str b \<Rightarrow>
            (case urlparse_scheme env b of
               Inl e \<Rightarrow> raise_io e
             | Inr scheme \<Rightarrow>
                 if scheme \<noteq> [] then
                   with_stream Install
                     (return_io (generate_requests [InstallRequest_payload (Url b)]))
                 else
                   (case resolve_strict env b of
                      Inl e \<Rightarrow> raise_io e
                    | Inr file_path \<Rightarrow>
                        if is_local self then
                          with_stream Install
                            (return_io
                               (generate_requests [InstallRequest_payload (File_path file_path)]))
                        else
                          return_io (generate_binary_chunks env file_path destination)))
        | IO io \<Rightarrow> return_io (generate_io_chunks env io))
       (\<lambda>generator.
          with_stream Install
            (bind_io (send_message (InstallRequest_destination destination)) (\<lambda>_.
             bind_io (drain_to_stream generator) (\<lambda>response.
               (case response of
                  None \<Rightarrow> raise_io (AttributeError ''name'')
                | Some r \<Rightarrow> return_io (InstalledArtifact (resp_name r) (resp_uuid r)))))))"

definition install :: "env \<Rightarrow> Bundle \<Rightarrow> installed_artifact io" where
  "install env bundle = client_call env (\<lambda>self. install_to_destination env self bundle APP)"

definition install_xctest :: "env \<Rightarrow> Bundle \<Rightarrow> installed_artifact io" where
  "install_xctest env xctest = client_call env (\<lambda>self. install_to_destination env self xctest XCTEST)"

definition install_dylib :: "env \<Rightarrow> Bundle \<Rightarrow> installed_artifact io" where
  "install_dylib env dylib = client_call env (\<lambda>self. install_to_destination env self dylib DYLIB)"

definition install_dsym :: "env \<Rightarrow> Bundle \<Rightarrow> installed_artifact io" where
  "install_dsym env dsym = client_call env (\<lambda>self. install_to_destination env self dsym DSYM)"

definition install_framework :: "env \<Rightarrow> Bundle \<Rightarrow> installed_artifact io" where
  "install_framework env framework_path =
     client_call env (\<lambda>self. install_to_destination env self framework_path FRAMEWORK)"

definition push_body :: "env \<Rightarrow> companion_info \<Rightarrow> string list \<Rightarrow> string \<Rightarrow> string \<Rightarrow> unit io" where
  "push_body env self src_paths bundle_id dest_path =
     with_stream Push
       (bind_io (send_message (PushRequest_inner bundle_id dest_path)) (\<lambda>_.
          if is_local self then
            bind_io (send_each (map (\<lambda>src_path. PushRequest_payload (File_path src_path)) src_paths)) (\<lambda>_.
            bind_io end_stream (\<lambda>_.
            bind_io recv_message (\<lambda>_.
            return_io ())))
          else
            bind_io
              (drain_to_stream
                 (stream_map (generate_tar env src_paths False)
                    (\<lambda>chunk. PushRequest_payload (Data chunk))))
              (\<lambda>_. return_io ())))"

definition push :: "env \<Rightarrow> string list \<Rightarrow> string \<Rightarrow> string \<Rightarrow> unit io" where
  "push env src_paths bundle_id dest_path =
     client_call env (\<lambda>self. push_body env self src_paths bundle_id dest_path)"

definition pull_body :: "env \<Rightarrow> companion_info \<Rightarrow> string \<Rightarrow> string \<Rightarrow> string \<Rightarrow> payload io" where
  "pull_body env self bundle_id src_path dest_path =
     bind_io
       (with_stream Pull
          (bind_io
             (send_message
                (PullRequest bundle_id src_path (if is_local self then Some dest_path else None))) (\<lambda>_.
           bind_io end_stream (\<lambda>_.
             if is_local self then
               bind_io recv_message (\<lambda>_. return_io ())
             else
               drain_untar env dest_path []))))
       (\<lambda>_. return_io (File_path dest_path))"

definition pull :: "env \<Rightarrow> string \<Rightarrow> string \<Rightarrow> string \<Rightarrow> payload io" where
  "pull env bundle_id src_path dest_path =
     client_call env (\<lambda>self. pull_body env self bundle_id src_path dest_path)"

definition add_media_body :: "env \<Rightarrow> companion_info \<Rightarrow> string list \<Rightarrow> unit io" where
  "add_media_body env self file_paths =
     with_stream Add_media
       (if is_local self then
          bind_io (send_each (map (\<lambda>file_path. AddMediaRequest (File_path file_path)) file_paths)) (\<lambda>_.
          bind_io end_stream (\<lambda>_.
          bind_io recv_message (\<lambda>_.
          return_io ())))
        else
          bind_io
            (drain_to_stream
               (stream_map (generate_tar env file_paths True)
                  (\<lambda>chunk. AddMediaRequest (Data chunk))))
            (\<lambda>_. return_io ()))"

definition add_media :: "env \<Rightarrow> string list \<Rightarrow> unit io" where
  "add_media env file_paths = client_call env (\<lambda>self. add_media_body env self file_paths)"

definition contacts_update_body :: "env \<Rightarrow> companion_info \<Rightarrow> string \<Rightarrow> unit io" where
  "contacts_update_body env self contacts_path =
     bind_io (create_tar env [contacts_path]) (\<lambda>data.
       unary_call Contacts_update (ContactsUpdateRequest (Data data)))"

definition contacts_update :: "env \<Rightarrow> string \<Rightarrow> unit io" where
  "contacts_update env contacts_path =
     client_call env (\<lambda>self. contacts_update_body env self contacts_path)"

definition hid_body :: "env \<Rightarrow> companion_info \<Rightarrow> hid_event gen \<Rightarrow> unit io" where
  "hid_body env self event_iterator =
     with_stream Hid
       (bind_io (drain_to_stream (stream_map event_iterator event_to_grpc)) (\<lambda>_.
        bind_io recv_message (\<lambda>_.
        return_io ())))"

definition hid :: "env \<Rightarrow> hid_event gen \<Rightarrow> unit io" where
  "hid env event_iterator = client_call env (\<lambda>self. hid_body env self event_iterator)"

section \<open>Reading the log of transport calls\<close>

fun sent :: "event list \<Rightarrow> request list" where
  "sent [] = []"
| "sent (Send r # es) = r # sent es"
| "sent (e # es) = sent es"

fun opened :: "event list \<Rightarrow> rpc list" where
  "opened [] = []"
| "opened (Open m # es) = m # opened es"
| "opened (e # es) = opened es"

definition receives :: "event list \<Rightarrow> nat" where
  "receives t = length (filter (\<lambda>e. e = Recv) t)"

definition ends :: "event list \<Rightarrow> nat" where
  "ends t = length (filter (\<lambda>e. e = End) t)"

text \<open>
  Every receive happens on a stream whose end has already been signalled: the flag is
  cleared when a stream is opened and set by \<open>End\<close>.
\<close>

fun recv_after_end :: "bool \<Rightarrow> event list \<Rightarrow> bool" where
  "recv_after_end ended [] = True"
| "recv_after_end ended (Open m # es) = recv_after_end False es"
| "recv_after_end ended (End # es) = recv_after_end True es"
| "recv_after_end ended (Recv # es) = (ended \<and> recv_after_end ended es)"
| "recv_after_end ended (e # es) = recv_after_end ended es"

fun unpacked :: "event list \<Rightarrow> (string \<times> bytes) list" where
  "unpacked [] = []"
| "unpacked (Unpack p d # es) = (p, d) # unpacked es"
| "unpacked (e # es) = unpacked es"

fun is_ok :: "exn + 'a \<Rightarrow> bool" where
  "is_ok (Inr a) = True"
| "is_ok (Inl e) = False"

definition no_faults :: "world \<Rightarrow> bool" where
  "no_faults w = list_all (\<lambda>f. f = None) (fault_script w)"

definition is_domain_error :: "exn + 'a \<Rightarrow> bool" where
  "is_domain_error r = (case r of Inl (IdbException a) \<Rightarrow> True | _ \<Rightarrow> False)"

text \<open>
  The log of one call that opens a stream \<open>m\<close> to send the frames \<open>plan\<close>: either opening
  fails, or some prefix of the plan is sent, followed, once the whole plan is out, by the
  end-of-stream signal and one receive; the stream is closed in every case.
\<close>

definition session :: "rpc \<Rightarrow> request list \<Rightarrow> exn + 'a \<Rightarrow> event list \<Rightarrow> bool" where
  "session m plan r t =
     ((t = [Open m] \<and> \<not> is_ok r) \<or>
      (\<exists>fs tl. t = Open m # map Send fs @ tl @ [Close] \<and> prefix fs plan \<and>
         (tl = [] \<or> tl = [End] \<or> tl = [End, Recv]) \<and>
         (tl \<noteq> [] \<longrightarrow> fs = plan) \<and>
         (is_ok r \<longrightarrow> tl = [End, Recv])))"

section \<open>The decision table of the specification\<close>

text \<open>
  The specification's view, for comparison with \<open>install_to_destination\<close>: the tagged
  union of bundle sources, the four frame kinds, and the strategy table of the
  TransferStrategySelector.
\<close>

datatype bundle_source = FilesystemPath string | RemoteURL string | InMemoryStream bytes

datatype frame_kind = Metadata | DataChunk | PathRef | URLRef | InputEvent

datatype strategy = SingleURLRef | SinglePathRef | ArchiveChunking | ContentChunking

fun spec_select :: "bundle_source \<Rightarrow> bool \<Rightarrow> strategy" where
  "spec_select (RemoteURL u) local = SingleURLRef"
| "spec_select (FilesystemPath p) True = SinglePathRef"
| "spec_select (FilesystemPath p) False = ArchiveChunking"
| "spec_select (InMemoryStream b) local = ContentChunking"

fun spec_frame_kind :: "strategy \<Rightarrow> frame_kind" where
  "spec_frame_kind SingleURLRef = URLRef"
| "spec_frame_kind SinglePathRef = PathRef"
| "spec_frame_kind ArchiveChunking = DataChunk"
| "spec_frame_kind ContentChunking = DataChunk"

text \<open>The variant of a bundle: a string whose URL parse has a scheme is a URL, any other
  string that parses is a filesystem path, anything that is not a string is an in-memory
  stream. A string on which the URL parse raises has no variant.\<close>

definition spec_bundle_source :: "env \<Rightarrow> Bundle \<Rightarrow> bundle_source option" where
  "spec_bundle_source env b =
     (case b of
        Str s \<Rightarrow>
          (case urlparse_scheme env s of
             Inl e \<Rightarrow> None
           | Inr scheme \<Rightarrow> if scheme \<noteq> [] then Some (RemoteURL s) else Some (FilesystemPath s))
      | IO io \<Rightarrow> Some (InMemoryStream io))"

fun payload_kind :: "payload \<Rightarrow> frame_kind" where
  "payload_kind (Url u) = URLRef"
| "payload_kind (File_path p) = PathRef"
| "payload_kind (Data d) = DataChunk"

fun kind_of :: "request \<Rightarrow> frame_kind" where
  "kind_of (InstallRequest_destination d) = Metadata"
| "kind_of (InstallRequest_payload p) = payload_kind p"
| "kind_of (PushRequest_inner b d) = Metadata"
| "kind_of (PushRequest_payload p) = payload_kind p"
| "kind_of (PullRequest b s d) = Metadata"
| "kind_of (AddMediaRequest p) = payload_kind p"
| "kind_of (ContactsUpdateRequest p) = payload_kind p"
| "kind_of (HIDEventRequest ev) = InputEvent"

section \<open>Concrete inputs\<close>

definition local_companion :: companion_info where
  "local_companion = \<lparr>host = ''localhost'', port = 10882, is_local = True\<rparr>"

definition remote_companion :: companion_info where
  "remote_companion = \<lparr>host = ''farm'', port = 10882, is_local = False\<rparr>"

text \<open>An environment in which \<open>a.app\<close> exists, \<open>notes.txt\<close> is a regular file,
  \<open>https://x/a.ipa\<close> parses with a scheme, \<open>//[x\<close> does not parse, every top-level path
  packs to three bytes, and the archive generator yields one block of two zero bytes when
  it is given no path.\<close>

definition example_env :: "companion_info \<Rightarrow> env" where
  "example_env c =
     \<lparr>get_companion_info = Inr c,
      urlparse_scheme =
        (\<lambda>s. if s = ''https://x/a.ipa'' then Inr ''https''
             else if s = ''//[x'' then Inl (ValueError ''Invalid IPv6 URL'')
             else Inr []),
      resolve_strict =
        (\<lambda>s. if s = ''a.app'' then Inr ''/tmp/a.app''
             else if s = ''notes.txt/child'' then Inl (NotADirectoryError s)
             else Inl (FileNotFoundError s)),
      archive_records = (\<lambda>sub p. Inr [1, 2, 3]),
      empty_tar = Yield [0, 0] Done,
      block_size = 2,
      chunk_size = 2,
      unpack_error = (\<lambda>chunks p. None)\<rparr>"

definition quiet :: "response list \<Rightarrow> world" where
  "quiet rs = \<lparr>fault_script = [], inbox = rs\<rparr>"

definition faulty :: "exn option list \<Rightarrow> response list \<Rightarrow> world" where
  "faulty fs rs = \<lparr>fault_script = fs, inbox = rs\<rparr>"

section \<open>How the log of a call is built\<close>

lemma step_cases:
  "step ev w = (r, t, w') \<Longrightarrow> t = [ev] \<and> inbox w' = inbox w"
  by (auto simp: step_def split: list.splits option.splits)

lemma bind_io_cases:
  assumes "bind_io m k w = (r, t, w')"
  obtains (raised) e where "m w = (Inl e, t, w')" "r = Inl e"
        | (continued) a t1 w1 t2 where "m w = (Inr a, t1, w1)" "k a w1 = (r, t2, w')" "t = t1 @ t2"
  using assms by (auto simp: bind_io_def split: prod.splits sum.splits)

lemma with_stream_cases:
  assumes "with_stream m body w = (r, t, w')"
  obtains (refused) e where "r = Inl e" "t = [Open m]" "inbox w' = inbox w"
        | (entered) t' w1 where "body w1 = (r, t', w')" "t = Open m # t' @ [Close]" "inbox w1 = inbox w"
  using assms
  by (auto simp: with_stream_def split: prod.splits sum.splits dest!: step_cases)

lemma sent_append [simp]: "sent (xs @ ys) = sent xs @ sent ys"
  by (induction xs rule: sent.induct) auto

lemma sent_map_Send [simp]: "sent (map Send fs) = fs"
  by (induction fs) auto

lemma gen_items_of_list [simp]: "gen_items (gen_of_list xs) = xs"
  by (induction xs) auto

lemma gen_raises_of_list [simp]: "gen_raises (gen_of_list xs) = None"
  by (induction xs) auto

lemma gen_items_stream_map [simp]: "gen_items (stream_map g f) = map f (gen_items g)"
  by (induction g) auto

lemma send_each_drain: "send_each rs = drain_sends (gen_of_list rs)"
  by (induction rs) auto

lemma drain_sends_shape:
  "drain_sends g w = (r, t, w') \<Longrightarrow>
     \<exists>fs. t = map Send fs \<and> prefix fs (gen_items g) \<and> inbox w' = inbox w \<and>
          (is_ok r \<longrightarrow> fs = gen_items g \<and> gen_raises g = None)"
proof (induction g arbitrary: w r t w')
  case Done
  then show ?case by (auto simp: return_io_def)
next
  case (Yield x g)
  from Yield.prems have "bind_io (send_message x) (\<lambda>_. drain_sends g) w = (r, t, w')"
    by simp
  then show ?case
  proof (cases rule: bind_io_cases)
    case (raised e)
    then have "t = map Send [x]" "inbox w' = inbox w"
      using step_cases [of "Send x" w "Inl e" t w'] by (auto simp: send_message_def)
    with raised show ?thesis by (intro exI [of _ "[x]"]) auto
  next
    case (continued a t1 w1 t2)
    then have t1: "t1 = [Send x]" "inbox w1 = inbox w"
      using step_cases [of "Send x" w "Inr a" t1 w1] by (auto simp: send_message_def)
    from Yield.IH [OF continued(2)] obtain fs where
      fs: "t2 = map Send fs" "prefix fs (gen_items g)" "inbox w' = inbox w1"
          "is_ok r \<longrightarrow> fs = gen_items g \<and> gen_raises g = None"
      by blast
    with continued t1 show ?thesis by (intro exI [of _ "x # fs"]) auto
  qed
next
  case (Raise e)
  then show ?case by (auto simp: raise_io_def)
qed

lemma recv_message_cases:
  "recv_message w = (r, t, w') \<Longrightarrow> t = [Recv]"
  by (auto simp: recv_message_def split: prod.splits sum.splits list.splits dest!: step_cases)

lemma end_recv_shape:
  "bind_io end_stream (\<lambda>_. recv_message) w = (r, t, w') \<Longrightarrow>
     (t = [End] \<and> \<not> is_ok r) \<or> t = [End, Recv]"
  by (erule bind_io_cases)
     (auto simp: end_stream_def dest!: step_cases recv_message_cases)

lemma drain_to_stream_shape:
  assumes "drain_to_stream g w = (r, t, w')"
  shows "\<exists>fs tl. t = map Send fs @ tl \<and> prefix fs (gen_items g) \<and>
           (tl = [] \<or> tl = [End] \<or> tl = [End, Recv]) \<and>
           (tl \<noteq> [] \<longrightarrow> fs = gen_items g) \<and>
           (is_ok r \<longrightarrow> tl = [End, Recv] \<and> gen_raises g = None)"
  using assms unfolding drain_to_stream_def
proof (cases rule: bind_io_cases)
  case (raised e)
  from drain_sends_shape [OF raised(1)] obtain fs where
    "t = map Send fs" "prefix fs (gen_items g)" by blast
  with raised show ?thesis by (intro exI [of _ fs] exI [of _ "[]"]) auto
next
  case (continued a t1 w1 t2)
  from drain_sends_shape [OF continued(1)] have t1: "t1 = map Send (gen_items g)" "gen_raises g = None" by auto
  from end_recv_shape [OF continued(2)] have "(t2 = [End] \<and> \<not> is_ok r) \<or> t2 = [End, Recv]" .
  with continued t1 show ?thesis
    by (intro exI [of _ "gen_items g"] exI [of _ t2]) auto
qed


lemma gen_raises_stream_map [simp]: "gen_raises (stream_map g f) = gen_raises g"
  by (induction g) auto

lemma bind_io_assoc: "bind_io (bind_io m k) h = bind_io m (\<lambda>a. bind_io (k a) h)"
  by (auto simp: bind_io_def fun_eq_iff split: prod.splits sum.splits)

lemma drain_to_stream_Yield:
  "drain_to_stream (Yield x g) = bind_io (send_message x) (\<lambda>_. drain_to_stream g)"
  by (simp add: drain_to_stream_def bind_io_assoc)

lemma send_each_end_recv:
  "bind_io (send_each rs) (\<lambda>_. bind_io end_stream (\<lambda>_. bind_io recv_message k)) =
   bind_io (drain_to_stream (gen_of_list rs)) k"
  by (simp add: drain_to_stream_def bind_io_assoc send_each_drain)

lemma with_stream_drain_shape:
  assumes run: "with_stream m (bind_io (drain_to_stream g) k) w = (r, t, w')"
    and pure: "\<And>a w0. events_of (k a w0) = []"
  shows "session m (gen_items g) r t \<and> (is_ok r \<longrightarrow> gen_raises g = None)"
  using run
proof (cases rule: with_stream_cases)
  case (refused e)
  then show ?thesis by (simp add: session_def)
next
  case (entered t' w1)
  from entered(1) show ?thesis
  proof (cases rule: bind_io_cases)
    case (raised e)
    from drain_to_stream_shape [OF raised(1)] obtain fs tl where
      "t' = map Send fs @ tl" "prefix fs (gen_items g)"
      "tl = [] \<or> tl = [End] \<or> tl = [End, Recv]" "tl \<noteq> [] \<longrightarrow> fs = gen_items g"
      by blast
    with raised entered(2) have
      "\<exists>fs tl. t = Open m # map Send fs @ tl @ [Close] \<and> prefix fs (gen_items g) \<and>
         (tl = [] \<or> tl = [End] \<or> tl = [End, Recv]) \<and>
         (tl \<noteq> [] \<longrightarrow> fs = gen_items g) \<and>
         (is_ok r \<longrightarrow> tl = [End, Recv])"
      by (intro exI [of _ fs] exI [of _ tl]) auto
    with raised show ?thesis by (simp add: session_def)
  next
    case (continued a t1 w2 t2)
    from drain_to_stream_shape [OF continued(1)] have
      t1: "t1 = map Send (gen_items g) @ [End, Recv]" "gen_raises g = None"
      by auto
    from pure [of a w2] continued(2) have "t2 = []" by (simp add: events_of_def)
    with continued t1 entered(2) have
      "\<exists>fs tl. t = Open m # map Send fs @ tl @ [Close] \<and> prefix fs (gen_items g) \<and>
         (tl = [] \<or> tl = [End] \<or> tl = [End, Recv]) \<and>
         (tl \<noteq> [] \<longrightarrow> fs = gen_items g) \<and>
         (is_ok r \<longrightarrow> tl = [End, Recv])"
      by (intro exI [of _ "gen_items g"] exI [of _ "[End, Recv]"]) auto
    with t1 show ?thesis by (simp add: session_def)
  qed
qed

lemma session_sent:
  assumes "session m plan r t"
  shows "prefix (sent t) plan"
    and "is_ok r \<Longrightarrow> t = Open m # map Send plan @ [End, Recv, Close]"
    and "is_ok r \<Longrightarrow> sent t = plan"
  using assms by (auto simp: session_def)

lemma recv_after_end_sends [simp]:
  "recv_after_end b (map Send fs @ es) = recv_after_end b es"
  by (induction fs) auto

lemma session_recv_after_end:
  assumes "session m plan r t"
  shows "recv_after_end b t"
  using assms by (auto simp: session_def)

lemma push_body_canon:
  "push_body env self src_paths bundle_id dest_path =
     with_stream Push
       (bind_io
          (drain_to_stream
             (Yield (PushRequest_inner bundle_id dest_path)
                (if is_local self
                 then gen_of_list (map (\<lambda>src_path. PushRequest_payload (File_path src_path)) src_paths)
                 else stream_map (generate_tar env src_paths False)
                        (\<lambda>chunk. PushRequest_payload (Data chunk)))))
          (\<lambda>_. return_io ()))"
  by (simp add: push_body_def drain_to_stream_Yield send_each_end_recv bind_io_assoc)

lemma events_of_return [simp]: "events_of (return_io a w) = []"
  by (simp add: events_of_def return_io_def)

lemma client_call_Inr:
  "get_companion_info env = Inr self \<Longrightarrow> client_call env func = func self"
  by (simp add: client_call_def log_and_handle_exceptions_def)


lemma push_body_session:
  assumes "push_body env self src_paths bundle_id dest_path w = (r, t, w')"
  shows "session Push
           (PushRequest_inner bundle_id dest_path #
            (if is_local self
             then map (\<lambda>src_path. PushRequest_payload (File_path src_path)) src_paths
             else map (\<lambda>chunk. PushRequest_payload (Data chunk))
                    (gen_items (generate_tar env src_paths False)))) r t
         \<and> (is_ok r \<longrightarrow> \<not> is_local self \<longrightarrow> gen_raises (generate_tar env src_paths False) = None)"
  using with_stream_drain_shape [OF assms [unfolded push_body_canon]]
  by (auto split: if_splits)

lemma step_no_faults:
  assumes "no_faults w"
  obtains w1 where "step ev w = (Inr (), [ev], w1)" "no_faults w1" "inbox w1 = inbox w"
  using assms
  by (cases "fault_script w") (auto simp: step_def no_faults_def split: option.splits)


lemma setup_error_translated:
  "get_companion_info env = Inl (GRPCError message) \<Longrightarrow>
     client_call env func w = (Inl (IdbException (Message message)), [], w)"
  by (simp add: client_call_def log_and_handle_exceptions_def raise_io_def)

lemmas run_defs =
  client_call_def log_and_handle_exceptions_def example_env_def
  remote_companion_def local_companion_def with_stream_def step_def quiet_def faulty_def
  bind_io_def send_message_def drain_to_stream_def generate_tar_def chunk_bytes.simps
  end_stream_def recv_message_def return_io_def raise_io_def generate_requests_def
  generate_binary_chunks_def generate_io_chunks_def events_of_def result_of_def
  unary_call_def create_tar_def event_to_grpc_def

lemma push_example_run:
  "push (example_env remote_companion) [''x''] ''b'' ''d'' (quiet [Response [] [] []]) =
     (Inr (),
      [Open Push, Send (PushRequest_inner ''b'' ''d''), Send (PushRequest_payload (Data [1, 2])),
       Send (PushRequest_payload (Data [3])), End, Recv, Close],
      quiet [])"
  by (simp add: push_def push_body_def run_defs)

section \<open>A transport that raises nothing\<close>

text \<open>
  When the fault script holds no fault every primitive returns, so the result and the log
  of a call are determined by the frames it has to send and by what the companion answers.
\<close>

lemma step_quiet:
  assumes "no_faults w"
  shows "\<exists>w1. step ev w = (Inr (), [ev], w1) \<and> no_faults w1 \<and> inbox w1 = inbox w"
  using step_no_faults [OF assms, of ev] by blast

lemma recv_quiet:
  assumes "no_faults w"
  shows "\<exists>w1. recv_message w =
             (Inr (case inbox w of [] \<Rightarrow> None | m # ms \<Rightarrow> Some m), [Recv], w1) \<and>
           no_faults w1 \<and> inbox w1 = tl (inbox w)"
proof -
  from step_quiet [OF assms, of Recv] obtain w0 where
    "step Recv w = (Inr (), [Recv], w0)" "no_faults w0" "inbox w0 = inbox w" by blast
  then show ?thesis
    by (cases "inbox w") (auto simp: recv_message_def no_faults_def)
qed

lemma drain_sends_quiet:
  "no_faults w \<Longrightarrow>
     \<exists>w1. drain_sends g w =
             ((case gen_raises g of None \<Rightarrow> Inr () | Some e \<Rightarrow> Inl e),
              map Send (gen_items g), w1) \<and>
          no_faults w1 \<and> inbox w1 = inbox w"
proof (induction g arbitrary: w)
  case Done
  then show ?case by (simp add: return_io_def)
next
  case (Yield x g)
  from step_quiet [OF Yield.prems, of "Send x"] obtain w0 where
    s: "step (Send x) w = (Inr (), [Send x], w0)" "no_faults w0" "inbox w0 = inbox w" by blast
  from Yield.IH [OF s(2)] obtain w1 where
    "drain_sends g w0 =
       ((case gen_raises g of None \<Rightarrow> Inr () | Some e \<Rightarrow> Inl e), map Send (gen_items g), w1)"
    "no_faults w1" "inbox w1 = inbox w0" by blast
  with s show ?case
    by (simp add: bind_io_def send_message_def)
next
  case (Raise e)
  then show ?case by (simp add: raise_io_def)
qed

lemma drain_to_stream_quiet:
  assumes "no_faults w"
  shows "\<exists>w1. drain_to_stream g w =
             (case gen_raises g of
                None \<Rightarrow>
                  (Inr (case inbox w of [] \<Rightarrow> None | m # ms \<Rightarrow> Some m),
                   map Send (gen_items g) @ [End, Recv], w1)
              | Some e \<Rightarrow> (Inl e, map Send (gen_items g), w1)) \<and>
           no_faults w1"
proof -
  from drain_sends_quiet [OF assms, of g] obtain w0 where
    d: "drain_sends g w =
         ((case gen_raises g of None \<Rightarrow> Inr () | Some e \<Rightarrow> Inl e), map Send (gen_items g), w0)"
       "no_faults w0" "inbox w0 = inbox w" by blast
  show ?thesis
  proof (cases "gen_raises g")
    case (Some e)
    with d show ?thesis by (simp add: drain_to_stream_def bind_io_def)
  next
    case None
    from step_quiet [OF d(2), of End] obtain w1 where
      e: "step End w0 = (Inr (), [End], w1)" "no_faults w1" "inbox w1 = inbox w0" by blast
    from recv_quiet [OF e(2)] obtain w2 where
      "recv_message w1 = (Inr (case inbox w1 of [] \<Rightarrow> None | m # ms \<Rightarrow> Some m), [Recv], w2)"
      "no_faults w2" by blast
    with None d e show ?thesis
      by (simp add: drain_to_stream_def bind_io_def end_stream_def)
  qed
qed

text \<open>A stream on which a generator is drained and whose response is then turned into
  the result without touching the transport.\<close>

lemma with_stream_drain_quiet:
  assumes quiet: "no_faults w"
    and pure: "\<And>a w0. k a w0 = (K a, [], w0)"
  shows "\<exists>w1. with_stream m (bind_io (drain_to_stream g) k) w =
             (case gen_raises g of
                None \<Rightarrow>
                  (K (case inbox w of [] \<Rightarrow> None | m # ms \<Rightarrow> Some m),
                   Open m # map Send (gen_items g) @ [End, Recv, Close], w1)
              | Some e \<Rightarrow> (Inl e, Open m # map Send (gen_items g) @ [Close], w1)) \<and>
           no_faults w1"
proof -
  from step_quiet [OF quiet, of "Open m"] obtain w0 where
    s: "step (Open m) w = (Inr (), [Open m], w0)" "no_faults w0" "inbox w0 = inbox w" by blast
  from drain_to_stream_quiet [OF s(2), of g] obtain w1 where
    d: "drain_to_stream g w0 =
             (case gen_raises g of
                None \<Rightarrow>
                  (Inr (case inbox w0 of [] \<Rightarrow> None | m # ms \<Rightarrow> Some m),
                   map Send (gen_items g) @ [End, Recv], w1)
              | Some e \<Rightarrow> (Inl e, map Send (gen_items g), w1))" "no_faults w1" by blast
  with s pure show ?thesis
    by (cases "gen_raises g") (simp_all add: with_stream_def bind_io_def)
qed

section \<open>Error translation\<close>

text \<open>
  C2. The claim: every transport failure raised during an operation reaches the caller
  wrapped into \<open>IdbException\<close>. In the code the \<open>try\<close> of \<open>func_wrapper\<close> ends when the
  coroutine object is returned, before its body runs, so a \<open>GRPCError\<close> raised by a stream
  send reaches the caller as it is. Here the metadata send of a push fails.
\<close>

theorem transport_error_escapes_untranslated:
  "result_of (push (example_env local_companion) [] ''b'' ''d''
      (faulty [None, Some (GRPCError ''reset'')] [])) = Inl (GRPCError ''reset'')"
  by (simp add: push_def push_body_def run_defs)

section \<open>Streams opened by install\<close>

text \<open>
  C3. The claim: an operation opens at most one stream. An install from a URL, and an
  install from a path with a local companion, open a first stream only to build the
  generator, leave it, and open a second stream for the transfer.
\<close>

theorem install_opens_two_streams:
  "opened (events_of (install (example_env local_companion) (Str ''https://x/a.ipa'')
      (quiet [Response ''a'' ''u'' []]))) = [Install, Install] \<and>
   opened (events_of (install (example_env local_companion) (Str ''a.app'')
      (quiet [Response ''a'' ''u'' []]))) = [Install, Install]"
  by (simp add: install_def install_to_destination_def run_defs)

section \<open>Install from a path that does not resolve\<close>

text \<open>
  C5, as stated: an install from a path that does not resolve to an existing entry fails
  with the domain error. On the code the exception of the strict path resolution reaches
  the caller as it is: a \<open>FileNotFoundError\<close> when nothing exists at the path, a
  \<open>NotADirectoryError\<close> when a component of the path is a regular file. Neither is the
  domain error.
\<close>

theorem install_missing_path_counterexample:
  "install (example_env local_companion) (Str ''nope'') (quiet []) =
     (Inl (FileNotFoundError ''nope''), [], quiet []) \<and>
   \<not> is_domain_error (result_of (install (example_env local_companion) (Str ''nope'') (quiet []))) \<and>
   install (example_env local_companion) (Str ''notes.txt/child'') (quiet []) =
     (Inl (NotADirectoryError ''notes.txt/child''), [], quiet []) \<and>
   \<not> is_domain_error
       (result_of (install (example_env local_companion) (Str ''notes.txt/child'') (quiet [])))"
  by (simp add: install_def install_to_destination_def run_defs is_domain_error_def)

text \<open>
  C5, amended: for a string bundle that parses without URL scheme and whose strict path
  resolution raises, the install fails with the very exception the resolution raised,
  whichever it is, and that exception reaches the caller unchanged; no transport primitive
  has been called, so no stream is opened. This holds for each of the five install calls.
\<close>

theorem install_resolution_error:
  assumes "get_companion_info env = Inr self"
    and "urlparse_scheme env b = Inr []"
    and "resolve_strict env b = Inl e"
  shows "install_to_destination env self (Str b) destination w = (Inl e, [], w)
       \<and> install env (Str b) w = (Inl e, [], w)
       \<and> install_xctest env (Str b) w = (Inl e, [], w)
       \<and> install_dylib env (Str b) w = (Inl e, [], w)
       \<and> install_dsym env (Str b) w = (Inl e, [], w)
       \<and> install_framework env (Str b) w = (Inl e, [], w)"
  using assms
  by (simp add: install_def install_xctest_def install_dylib_def install_dsym_def
      install_framework_def client_call_Inr install_to_destination_def bind_io_def raise_io_def)

theorem install_resolution_error_witness:
  "get_companion_info (example_env remote_companion) = Inr remote_companion \<and>
   urlparse_scheme (example_env remote_companion) ''nope'' = Inr [] \<and>
   resolve_strict (example_env remote_companion) ''nope'' = Inl (FileNotFoundError ''nope'') \<and>
   install (example_env remote_companion) (Str ''nope'') (quiet []) =
     (Inl (FileNotFoundError ''nope''), [], quiet []) \<and>
   urlparse_scheme (example_env remote_companion) ''notes.txt/child'' = Inr [] \<and>
   resolve_strict (example_env remote_companion) ''notes.txt/child'' =
     Inl (NotADirectoryError ''notes.txt/child'') \<and>
   install_xctest (example_env remote_companion) (Str ''notes.txt/child'') (quiet []) =
     (Inl (NotADirectoryError ''notes.txt/child''), [], quiet [])"
proof -
  have c: "get_companion_info (example_env remote_companion) = Inr remote_companion"
    by (simp add: example_env_def)
  have m: "urlparse_scheme (example_env remote_companion) ''nope'' = Inr []"
    "resolve_strict (example_env remote_companion) ''nope'' = Inl (FileNotFoundError ''nope'')"
    by (simp_all add: example_env_def)
  have d: "urlparse_scheme (example_env remote_companion) ''notes.txt/child'' = Inr []"
    "resolve_strict (example_env remote_companion) ''notes.txt/child'' =
       Inl (NotADirectoryError ''notes.txt/child'')"
    by (simp_all add: example_env_def)
  from install_resolution_error [OF c m, of APP "quiet []"]
       install_resolution_error [OF c d, of APP "quiet []"] c m d
  show ?thesis by blast
qed

section \<open>Push\<close>




section \<open>Push of no source path\<close>




section \<open>Contacts update\<close>

text \<open>
  C8, as stated: contacts_update opens a stream and drains a chunked frame sequence chosen
  by locality. On the code it makes one unary call that carries the whole archive, for a
  local and a remote companion alike, although the archive generator would yield two chunks.
\<close>

theorem contacts_update_counterexample:
  "contacts_update (example_env remote_companion) ''c.vcf'' (quiet []) =
     (Inr (), [Unary Contacts_update (ContactsUpdateRequest (Data [1, 2, 3]))], quiet []) \<and>
   contacts_update (example_env local_companion) ''c.vcf'' (quiet []) =
     (Inr (), [Unary Contacts_update (ContactsUpdateRequest (Data [1, 2, 3]))], quiet []) \<and>
   opened (events_of (contacts_update (example_env remote_companion) ''c.vcf'' (quiet []))) = [] \<and>
   sent (events_of (contacts_update (example_env remote_companion) ''c.vcf'' (quiet []))) = [] \<and>
   gen_items (generate_tar (example_env remote_companion) [''c.vcf''] False) = [[1, 2], [3]]"
  by (simp add: contacts_update_def contacts_update_body_def run_defs)

text \<open>
  C8, amended: contacts_update does not consult the locality. It packs the contacts path
  into one archive, held whole by \<open>create_tar\<close>, and sends it as the data payload of a
  single unary request; it opens no stream. If packing fails nothing is sent.
\<close>

theorem contacts_update_unary:
  assumes "get_companion_info env = Inr self"
  shows "events_of (contacts_update env contacts_path w) =
           (case pack env False [contacts_path] of
              Inl e \<Rightarrow> []
            | Inr archive \<Rightarrow> [Unary Contacts_update (ContactsUpdateRequest (Data archive))])
       \<and> contacts_update env contacts_path w = contacts_update_body env self' contacts_path w"
  using assms
  by (auto simp: contacts_update_def client_call_Inr contacts_update_body_def create_tar_def
      bind_io_def raise_io_def return_io_def unary_call_def events_of_def step_def
      split: sum.splits list.splits option.splits)

theorem contacts_update_unary_witness:
  "get_companion_info (example_env remote_companion) = Inr remote_companion \<and>
   events_of (contacts_update (example_env remote_companion) ''c.vcf'' (quiet [])) =
     [Unary Contacts_update (ContactsUpdateRequest (Data [1, 2, 3]))]"
proof -
  have h: "get_companion_info (example_env remote_companion) = Inr remote_companion"
    by (simp add: example_env_def)
  have p: "pack (example_env remote_companion) False [''c.vcf''] = Inr [1, 2, 3]"
    by (simp add: example_env_def)
  from contacts_update_unary [OF h, of "''c.vcf''" "quiet []"] h p show ?thesis by simp
qed

section \<open>Add media\<close>

lemma add_media_body_canon:
  "add_media_body env self file_paths =
     with_stream Add_media
       (bind_io
          (drain_to_stream
             (if is_local self
              then gen_of_list (map (\<lambda>file_path. AddMediaRequest (File_path file_path)) file_paths)
              else stream_map (generate_tar env file_paths True)
                     (\<lambda>chunk. AddMediaRequest (Data chunk))))
          (\<lambda>_. return_io ()))"
  by (simp add: add_media_body_def send_each_end_recv)

lemma add_media_body_session:
  assumes "add_media_body env self file_paths w = (r, t, w')"
  shows "session Add_media
           (if is_local self
            then map (\<lambda>file_path. AddMediaRequest (File_path file_path)) file_paths
            else map (\<lambda>chunk. AddMediaRequest (Data chunk))
                   (gen_items (generate_tar env file_paths True))) r t
         \<and> (is_ok r \<longrightarrow> \<not> is_local self \<longrightarrow> gen_raises (generate_tar env file_paths True) = None)"
  using with_stream_drain_shape [OF assms [unfolded add_media_body_canon]]
  by (auto split: if_splits)



lemma add_media_remote_run:
  "add_media (example_env remote_companion) [''a.png'', ''b.png''] (quiet [Response [] [] []]) =
     (Inr (),
      [Open Add_media, Send (AddMediaRequest (Data [1, 2])), Send (AddMediaRequest (Data [3, 1])),
       Send (AddMediaRequest (Data [2, 3])), End, Recv, Close],
      quiet [])"
  by code_simp


section \<open>Pull\<close>

lemma recv_message_Some:
  "recv_message w = (Inr (Some m), t, w') \<Longrightarrow> t = [Recv] \<and> inbox w = m # inbox w'"
  by (auto simp: recv_message_def split: prod.splits sum.splits list.splits dest!: step_cases)

lemma recv_message_None:
  "recv_message w = (Inr None, t, w') \<Longrightarrow> t = [Recv] \<and> inbox w = []"
  by (auto simp: recv_message_def split: prod.splits sum.splits list.splits dest!: step_cases)

lemma drain_untar_shape:
  "drain_untar env p seen w = (r, t, w') \<Longrightarrow>
     sent t = [] \<and> recv_after_end True t \<and>
     (is_ok r \<longrightarrow> t = concat (map (\<lambda>m. [Recv, Unpack p (resp_data m)]) (inbox w)) @ [Recv])"
proof (induction env p seen w arbitrary: r t w' rule: drain_untar.induct)
  case (1 env p seen w)
  obtain r1 t1 w1 where rm: "recv_message w = (r1, t1, w1)"
    by (cases "recv_message w") auto
  show ?case
  proof (cases r1)
    case (Inl e)
    with rm "1.prems" recv_message_cases [OF rm] show ?thesis
      by (auto simp: drain_untar.simps)
  next
    case (Inr a)
    show ?thesis
    proof (cases a)
      case None
      with rm Inr "1.prems" recv_message_None [of w t1 w1] show ?thesis
        by (auto simp: drain_untar.simps split: option.splits)
    next
      case (Some m)
      obtain r2 t2 w2 where d: "drain_untar env p (resp_data m # seen) w1 = (r2, t2, w2)"
        by (cases "drain_untar env p (resp_data m # seen) w1") auto
      have IH: "sent t2 = [] \<and> recv_after_end True t2 \<and>
         (is_ok r2 \<longrightarrow> t2 = concat (map (\<lambda>m. [Recv, Unpack p (resp_data m)]) (inbox w1)) @ [Recv])"
        by (rule "1.IH" [OF _ _ _ _ d, of r1 "(t1, w1)" a t1]) (simp_all add: rm Inr Some)
      from rm Inr Some recv_message_Some [of w m t1 w1] have
        t1: "t1 = [Recv]" "inbox w = m # inbox w1" by auto
      from "1.prems" rm Inr Some d have "t = t1 @ Unpack p (resp_data m) # t2" "r = r2"
        by (simp_all add: drain_untar.simps)
      with IH t1 show ?thesis by simp
    qed
  qed
qed

lemma return_io_eq:
  "return_io a w = (r, t, w') \<longleftrightarrow> r = Inr a \<and> t = [] \<and> w' = w"
  by (auto simp: return_io_def)

lemma recv_return_shape:
  "bind_io recv_message (\<lambda>_. return_io ()) w = (r, t, w') \<Longrightarrow> t = [Recv]"
  by (erule bind_io_cases) (auto simp: return_io_def dest!: recv_message_cases)

lemma recv_after_end_snoc_Close [simp]:
  "recv_after_end b (xs @ [Close]) = recv_after_end b xs"
  by (induction b xs rule: recv_after_end.induct) auto

lemma recv_after_end_snoc2_Close [simp]:
  "recv_after_end b (xs @ [e, Close]) = recv_after_end b (xs @ [e])"
  using recv_after_end_snoc_Close [of b "xs @ [e]"] by simp

lemma pull_body_shape:
  assumes run: "pull_body env self bundle_id src_path dest_path w = (r, t, w')"
  shows "prefix (sent t)
           [PullRequest bundle_id src_path (if is_local self then Some dest_path else None)]
       \<and> recv_after_end False t
       \<and> (is_ok r \<longrightarrow> r = Inr (File_path dest_path))
       \<and> (is_ok r \<longrightarrow> is_local self \<longrightarrow>
            t = [Open Pull, Send (PullRequest bundle_id src_path (Some dest_path)), End, Recv, Close])
       \<and> (is_ok r \<longrightarrow> \<not> is_local self \<longrightarrow>
            t = [Open Pull, Send (PullRequest bundle_id src_path None), End] @
                concat (map (\<lambda>m. [Recv, Unpack dest_path (resp_data m)]) (inbox w)) @
                [Recv, Close])"
proof (cases "is_local self")
  case True
  with run show ?thesis
    unfolding pull_body_def
    by (elim bind_io_cases with_stream_cases)
       (auto simp: send_message_def end_stream_def return_io_eq
          dest!: step_cases recv_return_shape)
next
  case False
  with run show ?thesis
    unfolding pull_body_def
    by (elim bind_io_cases with_stream_cases)
       (auto simp: send_message_def end_stream_def return_io_eq
          dest!: step_cases drain_untar_shape)
qed

lemma drain_untar_quiet:
  "inbox w = ms \<Longrightarrow> no_faults w \<Longrightarrow>
     \<exists>w1. drain_untar env p seen w =
       ((case unpack_error env (rev seen @ map resp_data ms) p of
           None \<Rightarrow> Inr ()
         | Some e \<Rightarrow> Inl e),
        concat (map (\<lambda>m. [Recv, Unpack p (resp_data m)]) ms) @ [Recv], w1)"
proof (induction ms arbitrary: w seen)
  case Nil
  from recv_quiet [OF Nil(2)] Nil(1) obtain w1 where
    "recv_message w = (Inr None, [Recv], w1)" by auto
  then show ?case
    by (auto simp: drain_untar.simps [of env p seen w] split: option.splits)
next
  case (Cons m ms)
  from recv_quiet [OF Cons.prems(2)] Cons.prems(1) obtain w1 where
    r: "recv_message w = (Inr (Some m), [Recv], w1)" "no_faults w1" "inbox w1 = ms" by auto
  from Cons.IH [OF r(3) r(2), of "resp_data m # seen"] obtain w2 where
    "drain_untar env p (resp_data m # seen) w1 =
       ((case unpack_error env (rev (resp_data m # seen) @ map resp_data ms) p of
           None \<Rightarrow> Inr ()
         | Some e \<Rightarrow> Inl e),
        concat (map (\<lambda>m. [Recv, Unpack p (resp_data m)]) ms) @ [Recv], w2)"
    by blast
  with r(1) show ?case
    by (simp add: drain_untar.simps [of env p seen w])
qed

lemma pull_body_quiet:
  assumes quiet: "no_faults w"
  shows "\<exists>w1. pull_body env self bundle_id src_path dest_path w =
     (if is_local self then
        (Inr (File_path dest_path),
         [Open Pull, Send (PullRequest bundle_id src_path (Some dest_path)), End, Recv, Close],
         w1)
      else
        ((case unpack_error env (map resp_data (inbox w)) dest_path of
            None \<Rightarrow> Inr (File_path dest_path)
          | Some e \<Rightarrow> Inl e),
         [Open Pull, Send (PullRequest bundle_id src_path None), End] @
         concat (map (\<lambda>m. [Recv, Unpack dest_path (resp_data m)]) (inbox w)) @
         [Recv, Close],
         w1))"
proof -
  from step_quiet [OF quiet, of "Open Pull"] obtain w1 where
    1: "step (Open Pull) w = (Inr (), [Open Pull], w1)" "no_faults w1" "inbox w1 = inbox w"
    by blast
  from step_quiet [OF 1(2),
      of "Send (PullRequest bundle_id src_path (if is_local self then Some dest_path else None))"]
  obtain w2 where
    2: "step (Send (PullRequest bundle_id src_path (if is_local self then Some dest_path else None))) w1 =
          (Inr (), [Send (PullRequest bundle_id src_path
                            (if is_local self then Some dest_path else None))], w2)"
       "no_faults w2" "inbox w2 = inbox w1"
    by blast
  from step_quiet [OF 2(2), of End] obtain w3 where
    3: "step End w2 = (Inr (), [End], w3)" "no_faults w3" "inbox w3 = inbox w2"
    by blast
  show ?thesis
  proof (cases "is_local self")
    case True
    from recv_quiet [OF 3(2)] obtain w4 where
      "recv_message w3 = (Inr (case inbox w3 of [] \<Rightarrow> None | m # ms \<Rightarrow> Some m), [Recv], w4)"
      by blast
    with True 1 2 3 show ?thesis
      by (simp add: pull_body_def with_stream_def bind_io_def send_message_def end_stream_def
          return_io_def)
  next
    case False
    from 1(3) 2(3) 3(3) have "inbox w3 = inbox w" by simp
    from drain_untar_quiet [OF this 3(2), of env dest_path "[]"] obtain w4 where
      "drain_untar env dest_path [] w3 =
         ((case unpack_error env (rev [] @ map resp_data (inbox w)) dest_path of
             None \<Rightarrow> Inr ()
           | Some e \<Rightarrow> Inl e),
          concat (map (\<lambda>m. [Recv, Unpack dest_path (resp_data m)]) (inbox w)) @ [Recv], w4)"
      by blast
    with False 1 2 3 show ?thesis
      by (cases "unpack_error env (map resp_data (inbox w)) dest_path")
         (simp_all add: pull_body_def with_stream_def bind_io_def send_message_def
            end_stream_def return_io_def)
  qed
qed

text \<open>
  C7. A pull sends at most one frame, the request: with a remote companion it names bundle
  id and source path and carries no destination path, with a local companion it carries
  the destination path. A pull that returns has, with a local companion, sent the request,
  ended the stream and received once; with a remote companion it has sent the request,
  ended the stream and then unpacked every incoming chunk into the destination path as it
  was received, until the companion ended the stream. On a transport that raises nothing
  the pull has exactly this log; it returns the destination path, unless the archive
  received from a remote companion is corrupt.
\<close>

theorem pull_frames:
  assumes companion: "get_companion_info env = Inr self"
    and run: "pull env bundle_id src_path dest_path w = (r, t, w')"
  shows "prefix (sent t)
           [PullRequest bundle_id src_path (if is_local self then Some dest_path else None)]
       \<and> (is_ok r \<longrightarrow> r = Inr (File_path dest_path))
       \<and> (is_ok r \<longrightarrow> is_local self \<longrightarrow>
            t = [Open Pull, Send (PullRequest bundle_id src_path (Some dest_path)), End, Recv, Close])
       \<and> (is_ok r \<longrightarrow> \<not> is_local self \<longrightarrow>
            t = [Open Pull, Send (PullRequest bundle_id src_path None), End] @
                concat (map (\<lambda>m. [Recv, Unpack dest_path (resp_data m)]) (inbox w)) @
                [Recv, Close])
       \<and> (no_faults w \<longrightarrow> is_local self \<longrightarrow>
            r = Inr (File_path dest_path) \<and>
            t = [Open Pull, Send (PullRequest bundle_id src_path (Some dest_path)), End, Recv, Close])
       \<and> (no_faults w \<longrightarrow> \<not> is_local self \<longrightarrow>
            r = (case unpack_error env (map resp_data (inbox w)) dest_path of
                   None \<Rightarrow> Inr (File_path dest_path)
                 | Some e \<Rightarrow> Inl e) \<and>
            t = [Open Pull, Send (PullRequest bundle_id src_path None), End] @
                concat (map (\<lambda>m. [Recv, Unpack dest_path (resp_data m)]) (inbox w)) @
                [Recv, Close])"
proof -
  from run companion have body: "pull_body env self bundle_id src_path dest_path w = (r, t, w')"
    by (simp add: pull_def client_call_Inr)
  note s = pull_body_shape [OF body]
  have q: "r = Inr (File_path dest_path) \<and>
           t = [Open Pull, Send (PullRequest bundle_id src_path (Some dest_path)), End, Recv, Close]"
    if "no_faults w" "is_local self"
    using pull_body_quiet [OF that(1), of env self bundle_id src_path dest_path] body that(2)
    by auto
  have u: "r = (case unpack_error env (map resp_data (inbox w)) dest_path of
                   None \<Rightarrow> Inr (File_path dest_path)
                 | Some e \<Rightarrow> Inl e) \<and>
            t = [Open Pull, Send (PullRequest bundle_id src_path None), End] @
                concat (map (\<lambda>m. [Recv, Unpack dest_path (resp_data m)]) (inbox w)) @
                [Recv, Close]"
    if "no_faults w" "\<not> is_local self"
    using pull_body_quiet [OF that(1), of env self bundle_id src_path dest_path] body that(2)
    by auto
  from s q u show ?thesis by blast
qed

lemma pull_remote_run:
  "pull (example_env remote_companion) ''com.x'' ''Documents/a'' ''out''
       (quiet [Response [] [] [1, 2], Response [] [] [3]]) =
     (Inr (File_path ''out''),
      [Open Pull, Send (PullRequest ''com.x'' ''Documents/a'' None), End,
       Recv, Unpack ''out'' [1, 2], Recv, Unpack ''out'' [3], Recv, Close],
      quiet [])"
  by code_simp

theorem pull_frames_witness:
  "get_companion_info (example_env remote_companion) = Inr remote_companion \<and>
   \<not> is_local remote_companion \<and>
   no_faults (faulty [None, None] [Response [] [] [1, 2], Response [] [] [3]]) \<and>
   unpack_error (example_env remote_companion) [[1, 2], [3]] ''out'' = None \<and>
   result_of (pull (example_env remote_companion) ''com.x'' ''Documents/a'' ''out''
                (faulty [None, None] [Response [] [] [1, 2], Response [] [] [3]])) =
     Inr (File_path ''out'') \<and>
   events_of (pull (example_env remote_companion) ''com.x'' ''Documents/a'' ''out''
                (faulty [None, None] [Response [] [] [1, 2], Response [] [] [3]])) =
     [Open Pull, Send (PullRequest ''com.x'' ''Documents/a'' None), End,
      Recv, Unpack ''out'' [1, 2], Recv, Unpack ''out'' [3], Recv, Close] \<and>
   get_companion_info (example_env local_companion) = Inr local_companion \<and>
   is_local local_companion \<and>
   result_of (pull (example_env local_companion) ''com.x'' ''Documents/a'' ''out''
                (faulty [None, None] [Response [] [] [1, 2], Response [] [] [3]])) =
     Inr (File_path ''out'') \<and>
   events_of (pull (example_env local_companion) ''com.x'' ''Documents/a'' ''out''
                (faulty [None, None] [Response [] [] [1, 2], Response [] [] [3]])) =
     [Open Pull, Send (PullRequest ''com.x'' ''Documents/a'' (Some ''out'')), End, Recv, Close]"
proof -
  have c: "get_companion_info (example_env remote_companion) = Inr remote_companion"
    "get_companion_info (example_env local_companion) = Inr local_companion"
    by (simp_all add: example_env_def)
  have l: "\<not> is_local remote_companion" "is_local local_companion"
    by (simp_all add: remote_companion_def local_companion_def)
  have q: "no_faults (faulty [None, None] [Response [] [] [1, 2], Response [] [] [3]])"
    by (simp add: no_faults_def faulty_def)
  have i: "inbox (faulty [None, None] [Response [] [] [1, 2], Response [] [] [3]]) =
      [Response [] [] [1, 2], Response [] [] [3]]"
    by (simp add: faulty_def)
  have u: "unpack_error (example_env remote_companion) [[1, 2], [3]] ''out'' = None"
    by (simp add: example_env_def)
  obtain r1 t1 w1 where run1:
    "pull (example_env remote_companion) ''com.x'' ''Documents/a'' ''out''
       (faulty [None, None] [Response [] [] [1, 2], Response [] [] [3]]) = (r1, t1, w1)"
    by (cases "pull (example_env remote_companion) ''com.x'' ''Documents/a'' ''out''
       (faulty [None, None] [Response [] [] [1, 2], Response [] [] [3]])") auto
  from pull_frames [OF c(1) run1, THEN conjunct2, THEN conjunct2, THEN conjunct2,
      THEN conjunct2, THEN conjunct2, rule_format, OF q l(1)]
  have remote:
    "result_of (pull (example_env remote_companion) ''com.x'' ''Documents/a'' ''out''
                (faulty [None, None] [Response [] [] [1, 2], Response [] [] [3]])) =
     Inr (File_path ''out'')"
    "events_of (pull (example_env remote_companion) ''com.x'' ''Documents/a'' ''out''
                (faulty [None, None] [Response [] [] [1, 2], Response [] [] [3]])) =
     [Open Pull, Send (PullRequest ''com.x'' ''Documents/a'' None), End,
      Recv, Unpack ''out'' [1, 2], Recv, Unpack ''out'' [3], Recv, Close]"
    by (simp_all add: run1 result_of_def events_of_def i u)
  obtain r2 t2 w2 where run2:
    "pull (example_env local_companion) ''com.x'' ''Documents/a'' ''out''
       (faulty [None, None] [Response [] [] [1, 2], Response [] [] [3]]) = (r2, t2, w2)"
    by (cases "pull (example_env local_companion) ''com.x'' ''Documents/a'' ''out''
       (faulty [None, None] [Response [] [] [1, 2], Response [] [] [3]])") auto
  from pull_frames [OF c(2) run2, THEN conjunct2, THEN conjunct2, THEN conjunct2,
      THEN conjunct2, THEN conjunct1, rule_format, OF q l(2)]
  have local:
    "result_of (pull (example_env local_companion) ''com.x'' ''Documents/a'' ''out''
                (faulty [None, None] [Response [] [] [1, 2], Response [] [] [3]])) =
     Inr (File_path ''out'')"
    "events_of (pull (example_env local_companion) ''com.x'' ''Documents/a'' ''out''
                (faulty [None, None] [Response [] [] [1, 2], Response [] [] [3]])) =
     [Open Pull, Send (PullRequest ''com.x'' ''Documents/a'' (Some ''out'')), End, Recv, Close]"
    by (simp_all add: run2 result_of_def events_of_def)
  from c l q u local remote show ?thesis
    by (intro conjI) simp_all
qed

section \<open>Install\<close>

lemma return_bind: "bind_io (return_io a) k = k a"
  by (auto simp: bind_io_def return_io_def fun_eq_iff split: prod.splits sum.splits)

lemma raise_bind: "bind_io (raise_io e) k = raise_io e"
  by (auto simp: bind_io_def raise_io_def fun_eq_iff)

lemma raise_io_eq:
  "raise_io e w = (r, t, w') \<longleftrightarrow> r = Inl e \<and> t = [] \<and> w' = w"
  by (auto simp: raise_io_def)

lemma install_stream_shape:
  assumes run: "with_stream Install
           (bind_io (send_message meta) (\<lambda>_.
            bind_io (drain_to_stream g) (\<lambda>response.
              (case response of
                 None \<Rightarrow> raise_io (AttributeError ''name'')
               | Some r \<Rightarrow> return_io (InstalledArtifact (resp_name r) (resp_uuid r)))))) w
         = (r, t, w')"
  shows "session Install (meta # gen_items g) r t \<and> (is_ok r \<longrightarrow> gen_raises g = None)"
proof -
  have pure: "events_of ((case response of
                 None \<Rightarrow> raise_io (AttributeError ''name'')
               | Some r \<Rightarrow> return_io (InstalledArtifact (resp_name r) (resp_uuid r))) w0) = []"
    for response w0
    by (cases response) (simp_all add: events_of_def raise_io_def return_io_def)
  from run have "with_stream Install
           (bind_io (drain_to_stream (Yield meta g)) (\<lambda>response.
              (case response of
                 None \<Rightarrow> raise_io (AttributeError ''name'')
               | Some r \<Rightarrow> return_io (InstalledArtifact (resp_name r) (resp_uuid r))))) w
         = (r, t, w')"
    by (simp add: drain_to_stream_Yield bind_io_assoc)
  from with_stream_drain_shape [OF this pure] show ?thesis by simp
qed

lemma first_stream_shape:
  assumes "bind_io (with_stream Install (return_io g)) k w = (r, t, w')"
  obtains (refused) "t = [Open Install]" "\<not> is_ok r"
        | (entered) w1 t2 where "k g w1 = (r, t2, w')" "t = Open Install # Close # t2"
  using assms
  by (elim bind_io_cases with_stream_cases) (auto simp: return_io_eq)

text \<open>What follows from the log of the transfer stream, whatever preceded it.\<close>

lemma session_frames:
  assumes s: "session m (meta # plan) r t2"
    and t: "t = pre @ t2" "sent pre = []"
    and k: "\<forall>f \<in> set plan. P f"
  shows "(\<forall>f \<in> set (sent t). f = meta \<or> P f)
       \<and> length (sent t) \<le> Suc (length plan)
       \<and> (is_ok r \<longrightarrow> sent t = meta # plan)"
proof -
  from s have p: "prefix (sent t2) (meta # plan)" and f: "is_ok r \<Longrightarrow> sent t2 = meta # plan"
    by (rule session_sent(1), rule session_sent(3))
  from p have "set (sent t2) \<subseteq> set (meta # plan)" by (rule set_mono_prefix)
  with k have "\<forall>f \<in> set (sent t2). f = meta \<or> P f" by auto
  moreover from p have "length (sent t2) \<le> Suc (length plan)"
    using prefix_length_le by fastforce
  ultimately show ?thesis using t f by simp
qed


lemma install_direct:
  assumes run: "bind_io (return_io g)
       (\<lambda>generator.
          with_stream Install
            (bind_io (send_message (InstallRequest_destination destination)) (\<lambda>_.
             bind_io (drain_to_stream generator) (\<lambda>response.
               (case response of
                  None \<Rightarrow> raise_io (AttributeError ''name'')
                | Some r \<Rightarrow> return_io (InstalledArtifact (resp_name r) (resp_uuid r))))))) w
       = (r, t, w')"
    and k: "\<forall>f \<in> set (gen_items g). P f"
  shows "(\<forall>f \<in> set (sent t). f = InstallRequest_destination destination \<or> P f)
       \<and> length (sent t) \<le> Suc (length (gen_items g))
       \<and> (is_ok r \<longrightarrow> sent t = InstallRequest_destination destination # gen_items g)"
proof -
  from run have "session Install (InstallRequest_destination destination # gen_items g) r t"
    using install_stream_shape [of "InstallRequest_destination destination" g w r t w']
    by (simp add: return_bind)
  from session_frames [OF this, of t "[]"] k show ?thesis by simp
qed

lemma install_after_first_stream:
  assumes run: "bind_io (with_stream Install (return_io g))
       (\<lambda>generator.
          with_stream Install
            (bind_io (send_message (InstallRequest_destination destination)) (\<lambda>_.
             bind_io (drain_to_stream generator) (\<lambda>response.
               (case response of
                  None \<Rightarrow> raise_io (AttributeError ''name'')
                | Some r \<Rightarrow> return_io (InstalledArtifact (resp_name r) (resp_uuid r))))))) w
       = (r, t, w')"
    and k: "\<forall>f \<in> set (gen_items g). P f"
  shows "(\<forall>f \<in> set (sent t). f = InstallRequest_destination destination \<or> P f)
       \<and> length (sent t) \<le> Suc (length (gen_items g))
       \<and> (is_ok r \<longrightarrow> sent t = InstallRequest_destination destination # gen_items g)"
  using run
proof (cases rule: first_stream_shape)
  case refused
  then show ?thesis by simp
next
  case (entered w1 t2)
  from install_stream_shape [OF entered(1)]
  have "session Install (InstallRequest_destination destination # gen_items g) r t2" by simp
  from session_frames [OF this, of t "[Open Install, Close]"] entered(2) k
  show ?thesis by simp
qed

lemma install_sent_frames:
  assumes run: "install_to_destination env self bundle destination w = (r, t, w')"
  shows "(\<forall>f \<in> set (sent t).
            f = InstallRequest_destination destination \<or>
            (\<exists>src. spec_bundle_source env bundle = Some src \<and>
               kind_of f = spec_frame_kind (spec_select src (is_local self))))
       \<and> (\<forall>src. spec_bundle_source env bundle = Some src \<longrightarrow>
            spec_frame_kind (spec_select src (is_local self)) \<noteq> DataChunk \<longrightarrow>
            length (sent t) \<le> 2)
       \<and> (is_ok r \<longrightarrow>
            sent t = InstallRequest_destination destination #
              (case bundle of
                 Str b \<Rightarrow>
                   (case urlparse_scheme env b of
                      Inl e \<Rightarrow> []
                    | Inr scheme \<Rightarrow>
                        if scheme \<noteq> [] then [InstallRequest_payload (Url b)]
                        else (case resolve_strict env b of
                                Inl e \<Rightarrow> []
                              | Inr file_path \<Rightarrow>
                                  if is_local self
                                  then [InstallRequest_payload (File_path file_path)]
                                  else map (\<lambda>chunk. InstallRequest_payload (Data chunk))
                                         (gen_items (generate_tar env [file_path] False))))
               | IO io \<Rightarrow>
                   map (\<lambda>chunk. InstallRequest_payload (Data chunk))
                     (chunk_bytes (chunk_size env) io)))"
proof (cases "bundle")
  case (IO io)
  with run have r: "bind_io (return_io (generate_io_chunks env io))
       (\<lambda>generator.
          with_stream Install
            (bind_io (send_message (InstallRequest_destination destination)) (\<lambda>_.
             bind_io (drain_to_stream generator) (\<lambda>response.
               (case response of
                  None \<Rightarrow> raise_io (AttributeError ''name'')
                | Some r \<Rightarrow> return_io (InstalledArtifact (resp_name r) (resp_uuid r))))))) w
       = (r, t, w')"
    by (simp add: install_to_destination_def)
  have "\<forall>f \<in> set (gen_items (generate_io_chunks env io)). kind_of f = DataChunk"
    by (auto simp: generate_io_chunks_def)
  from install_direct [OF r this] IO show ?thesis
    by (simp add: spec_bundle_source_def generate_io_chunks_def)
next
  case (Str b)
  show ?thesis
  proof (cases "urlparse_scheme env b")
    case (Inl e)
    with run Str have "t = []" "\<not> is_ok r"
      by (auto simp: install_to_destination_def raise_bind raise_io_eq)
    then show ?thesis by simp
  next
    case (Inr scheme)
    show ?thesis
    proof (cases "scheme \<noteq> []")
      case True
      with run Str Inr have r: "bind_io
         (with_stream Install (return_io (generate_requests [InstallRequest_payload (Url b)])))
         (\<lambda>generator.
          with_stream Install
            (bind_io (send_message (InstallRequest_destination destination)) (\<lambda>_.
             bind_io (drain_to_stream generator) (\<lambda>response.
               (case response of
                  None \<Rightarrow> raise_io (AttributeError ''name'')
                | Some r \<Rightarrow> return_io (InstalledArtifact (resp_name r) (resp_uuid r))))))) w
         = (r, t, w')"
        by (simp add: install_to_destination_def)
      have "\<forall>f \<in> set (gen_items (generate_requests [InstallRequest_payload (Url b)])).
              kind_of f = URLRef"
        by (simp add: generate_requests_def)
      from install_after_first_stream [OF r this] Str Inr True show ?thesis
        by (simp add: spec_bundle_source_def generate_requests_def)
    next
      case False
      show ?thesis
      proof (cases "resolve_strict env b")
        case failed: (Inl e)
        with run Str Inr False have "t = []" "\<not> is_ok r"
          by (auto simp: install_to_destination_def raise_bind raise_io_eq)
        then show ?thesis by simp
      next
        case resolved: (Inr file_path)
        show ?thesis
        proof (cases "is_local self")
          case True
          with run Str Inr False resolved have r: "bind_io
             (with_stream Install
                (return_io (generate_requests [InstallRequest_payload (File_path file_path)])))
             (\<lambda>generator.
          with_stream Install
            (bind_io (send_message (InstallRequest_destination destination)) (\<lambda>_.
             bind_io (drain_to_stream generator) (\<lambda>response.
               (case response of
                  None \<Rightarrow> raise_io (AttributeError ''name'')
                | Some r \<Rightarrow> return_io (InstalledArtifact (resp_name r) (resp_uuid r))))))) w
             = (r, t, w')"
            by (simp add: install_to_destination_def)
          have "\<forall>f \<in> set (gen_items
                   (generate_requests [InstallRequest_payload (File_path file_path)])).
                  kind_of f = PathRef"
            by (simp add: generate_requests_def)
          from install_after_first_stream [OF r this] Str Inr False resolved True show ?thesis
            by (simp add: spec_bundle_source_def generate_requests_def)
        next
          case remote: False
          with run Str Inr False resolved have r: "bind_io
             (return_io (generate_binary_chunks env file_path destination))
             (\<lambda>generator.
          with_stream Install
            (bind_io (send_message (InstallRequest_destination destination)) (\<lambda>_.
             bind_io (drain_to_stream generator) (\<lambda>response.
               (case response of
                  None \<Rightarrow> raise_io (AttributeError ''name'')
                | Some r \<Rightarrow> return_io (InstalledArtifact (resp_name r) (resp_uuid r))))))) w
             = (r, t, w')"
            by (simp add: install_to_destination_def)
          have "\<forall>f \<in> set (gen_items (generate_binary_chunks env file_path destination)).
                  kind_of f = DataChunk"
            by (auto simp: generate_binary_chunks_def)
          from install_direct [OF r this] Str Inr False resolved remote show ?thesis
            by (simp add: spec_bundle_source_def generate_binary_chunks_def)
        qed
      qed
    qed
  qed
qed

lemma first_stream_quiet:
  assumes "no_faults w"
  shows "\<exists>w1. with_stream Install (return_io g) w = (Inr g, [Open Install, Close], w1) \<and>
           no_faults w1 \<and> inbox w1 = inbox w"
  using step_quiet [OF assms, of "Open Install"]
  by (auto simp: with_stream_def return_io_def)

lemma install_stream_quiet:
  assumes quiet: "no_faults w" and g: "gen_raises g = None"
  shows "\<exists>w1. with_stream Install
           (bind_io (send_message (InstallRequest_destination destination)) (\<lambda>_.
            bind_io (drain_to_stream g) (\<lambda>response.
              (case response of
                 None \<Rightarrow> raise_io (AttributeError ''name'')
               | Some r \<Rightarrow> return_io (InstalledArtifact (resp_name r) (resp_uuid r)))))) w =
         ((case inbox w of
                   [] \<Rightarrow> Inl (AttributeError ''name'')
                 | m # ms \<Rightarrow> Inr (InstalledArtifact (resp_name m) (resp_uuid m))),
          Open Install # Send (InstallRequest_destination destination) #
          map Send (gen_items g) @ [End, Recv, Close], w1)"
proof -
  have pure: "(case a of
                 None \<Rightarrow> raise_io (AttributeError ''name'')
               | Some r \<Rightarrow> return_io (InstalledArtifact (resp_name r) (resp_uuid r))) w0 =
              ((case a of
                  None \<Rightarrow> Inl (AttributeError ''name'')
                | Some r \<Rightarrow> Inr (InstalledArtifact (resp_name r) (resp_uuid r))), [], w0)"
    for a and w0
    by (cases a) (simp_all add: raise_io_def return_io_def)
  from with_stream_drain_quiet [OF quiet,
      of "\<lambda>response. (case response of
                 None \<Rightarrow> raise_io (AttributeError ''name'')
               | Some r \<Rightarrow> return_io (InstalledArtifact (resp_name r) (resp_uuid r)))"
         "\<lambda>a. (case a of
                  None \<Rightarrow> Inl (AttributeError ''name'')
                | Some r \<Rightarrow> Inr (InstalledArtifact (resp_name r) (resp_uuid r)))",
      OF pure, of Install "Yield (InstallRequest_destination destination) g"] g
  show ?thesis
    by (cases "inbox w") (auto simp: drain_to_stream_Yield bind_io_assoc)
qed

lemma install_quiet_rows:
  assumes run: "install_to_destination env self bundle destination w = (r, t, w')"
  shows "(no_faults w \<longrightarrow> bundle = IO io \<longrightarrow>
            r = (case inbox w of
                   [] \<Rightarrow> Inl (AttributeError ''name'')
                 | m # ms \<Rightarrow> Inr (InstalledArtifact (resp_name m) (resp_uuid m))) \<and>
            t = Open Install # Send (InstallRequest_destination destination) #
                map (\<lambda>chunk. Send (InstallRequest_payload (Data chunk)))
                  (chunk_bytes (chunk_size env) io) @
                [End, Recv, Close])
       \<and> (no_faults w \<longrightarrow> bundle = Str b \<longrightarrow> urlparse_scheme env b = Inr scheme \<longrightarrow> scheme \<noteq> [] \<longrightarrow>
            r = (case inbox w of
                   [] \<Rightarrow> Inl (AttributeError ''name'')
                 | m # ms \<Rightarrow> Inr (InstalledArtifact (resp_name m) (resp_uuid m))) \<and>
            t = [Open Install, Close, Open Install, Send (InstallRequest_destination destination),
                 Send (InstallRequest_payload (Url b)), End, Recv, Close])
       \<and> (no_faults w \<longrightarrow> bundle = Str b \<longrightarrow> urlparse_scheme env b = Inr [] \<longrightarrow>
            resolve_strict env b = Inr file_path \<longrightarrow> is_local self \<longrightarrow>
            r = (case inbox w of
                   [] \<Rightarrow> Inl (AttributeError ''name'')
                 | m # ms \<Rightarrow> Inr (InstalledArtifact (resp_name m) (resp_uuid m))) \<and>
            t = [Open Install, Close, Open Install, Send (InstallRequest_destination destination),
                 Send (InstallRequest_payload (File_path file_path)), End, Recv, Close])
       \<and> (no_faults w \<longrightarrow> bundle = Str b \<longrightarrow> urlparse_scheme env b = Inr [] \<longrightarrow>
            resolve_strict env b = Inr file_path \<longrightarrow> \<not> is_local self \<longrightarrow>
            pack env False [file_path] = Inr archive \<longrightarrow>
            r = (case inbox w of
                   [] \<Rightarrow> Inl (AttributeError ''name'')
                 | m # ms \<Rightarrow> Inr (InstalledArtifact (resp_name m) (resp_uuid m))) \<and>
            t = Open Install # Send (InstallRequest_destination destination) #
                map (\<lambda>chunk. Send (InstallRequest_payload (Data chunk)))
                  (chunk_bytes (block_size env) archive) @
                [End, Recv, Close])"
proof -
  have io: "r = (case inbox w of
                   [] \<Rightarrow> Inl (AttributeError ''name'')
                 | m # ms \<Rightarrow> Inr (InstalledArtifact (resp_name m) (resp_uuid m))) \<and>
            t = Open Install # Send (InstallRequest_destination destination) #
                map (\<lambda>chunk. Send (InstallRequest_payload (Data chunk)))
                  (chunk_bytes (chunk_size env) io) @
                [End, Recv, Close]"
    if "no_faults w" "bundle = IO io"
    using install_stream_quiet [OF that(1), of "generate_io_chunks env io" destination] run that(2)
    by (auto simp: install_to_destination_def return_bind generate_io_chunks_def comp_def)
  have url: "r = (case inbox w of
                   [] \<Rightarrow> Inl (AttributeError ''name'')
                 | m # ms \<Rightarrow> Inr (InstalledArtifact (resp_name m) (resp_uuid m))) \<and>
            t = [Open Install, Close, Open Install, Send (InstallRequest_destination destination),
                 Send (InstallRequest_payload (Url b)), End, Recv, Close]"
    if "no_faults w" "bundle = Str b" "urlparse_scheme env b = Inr scheme" "scheme \<noteq> []"
  proof -
    from first_stream_quiet [OF that(1),
        of "generate_requests [InstallRequest_payload (Url b)]"] obtain w1 where
      f: "with_stream Install (return_io (generate_requests [InstallRequest_payload (Url b)])) w =
            (Inr (generate_requests [InstallRequest_payload (Url b)]), [Open Install, Close], w1)"
         "no_faults w1" "inbox w1 = inbox w" by blast
    from install_stream_quiet [OF f(2),
        of "generate_requests [InstallRequest_payload (Url b)]" destination] f(1,3) run that(2-4)
    show ?thesis
      by (auto simp: install_to_destination_def bind_io_def generate_requests_def)
  qed
  have path: "r = (case inbox w of
                   [] \<Rightarrow> Inl (AttributeError ''name'')
                 | m # ms \<Rightarrow> Inr (InstalledArtifact (resp_name m) (resp_uuid m))) \<and>
            t = [Open Install, Close, Open Install, Send (InstallRequest_destination destination),
                 Send (InstallRequest_payload (File_path file_path)), End, Recv, Close]"
    if "no_faults w" "bundle = Str b" "urlparse_scheme env b = Inr []"
       "resolve_strict env b = Inr file_path" "is_local self"
  proof -
    from first_stream_quiet [OF that(1),
        of "generate_requests [InstallRequest_payload (File_path file_path)]"] obtain w1 where
      f: "with_stream Install
            (return_io (generate_requests [InstallRequest_payload (File_path file_path)])) w =
            (Inr (generate_requests [InstallRequest_payload (File_path file_path)]),
             [Open Install, Close], w1)"
         "no_faults w1" "inbox w1 = inbox w" by blast
    from install_stream_quiet [OF f(2),
        of "generate_requests [InstallRequest_payload (File_path file_path)]" destination]
      f(1,3) run that(2-5)
    show ?thesis
      by (auto simp: install_to_destination_def bind_io_def generate_requests_def)
  qed
  have tar: "r = (case inbox w of
                   [] \<Rightarrow> Inl (AttributeError ''name'')
                 | m # ms \<Rightarrow> Inr (InstalledArtifact (resp_name m) (resp_uuid m))) \<and>
            t = Open Install # Send (InstallRequest_destination destination) #
                map (\<lambda>chunk. Send (InstallRequest_payload (Data chunk)))
                  (chunk_bytes (block_size env) archive) @
                [End, Recv, Close]"
    if "no_faults w" "bundle = Str b" "urlparse_scheme env b = Inr []"
       "resolve_strict env b = Inr file_path" "\<not> is_local self"
       "pack env False [file_path] = Inr archive"
  proof -
    from that(6) have g: "generate_tar env [file_path] False =
        gen_of_list (chunk_bytes (block_size env) archive)"
      by (simp add: generate_tar_def)
    from install_stream_quiet [OF that(1),
        of "generate_binary_chunks env file_path destination" destination] run that(2-5)
    show ?thesis
      by (auto simp: install_to_destination_def return_bind generate_binary_chunks_def g comp_def)
  qed
  from io url path tar show ?thesis by blast
qed

text \<open>
  C1. Every payload frame an install sends has the kind that the decision table assigns
  to the variant of the bundle and the locality of the companion: a string whose URL parse
  has a scheme gives one \<open>url\<close> frame; any other string gives, with a local companion, one
  \<open>file_path\<close> frame carrying the resolved path and, with a remote companion, the \<open>data\<close>
  frames of the archive of the resolved path; a bundle that is not a string gives the
  \<open>data\<close> frames of its content cut into chunks, whatever the locality. The only other
  frame is the metadata frame that carries the destination. When the kind is not \<open>data\<close>
  at most one payload frame is sent, and an install that returns has sent exactly the
  frames listed. On a transport that raises nothing each row of the table is carried out
  in full: the frames are sent after the metadata frame, the stream is ended, the response
  is received once and the artifact it names is returned.
\<close>

theorem install_frame_kind:
  assumes run: "install_to_destination env self bundle destination w = (r, t, w')"
  shows "(\<forall>f \<in> set (sent t).
            f = InstallRequest_destination destination \<or>
            (\<exists>src. spec_bundle_source env bundle = Some src \<and>
               kind_of f = spec_frame_kind (spec_select src (is_local self))))
       \<and> (\<forall>src. spec_bundle_source env bundle = Some src \<longrightarrow>
            spec_frame_kind (spec_select src (is_local self)) \<noteq> DataChunk \<longrightarrow>
            length (sent t) \<le> 2)
       \<and> (is_ok r \<longrightarrow>
            sent t = InstallRequest_destination destination #
              (case bundle of
                 Str b \<Rightarrow>
                   (case urlparse_scheme env b of
                      Inl e \<Rightarrow> []
                    | Inr scheme \<Rightarrow>
                        if scheme \<noteq> [] then [InstallRequest_payload (Url b)]
                        else (case resolve_strict env b of
                                Inl e \<Rightarrow> []
                              | Inr file_path \<Rightarrow>
                                  if is_local self
                                  then [InstallRequest_payload (File_path file_path)]
                                  else map (\<lambda>chunk. InstallRequest_payload (Data chunk))
                                         (gen_items (generate_tar env [file_path] False))))
               | IO io \<Rightarrow>
                   map (\<lambda>chunk. InstallRequest_payload (Data chunk))
                     (chunk_bytes (chunk_size env) io)))
       \<and> (no_faults w \<longrightarrow> bundle = IO io \<longrightarrow>
            r = (case inbox w of
                   [] \<Rightarrow> Inl (AttributeError ''name'')
                 | m # ms \<Rightarrow> Inr (InstalledArtifact (resp_name m) (resp_uuid m))) \<and>
            t = Open Install # Send (InstallRequest_destination destination) #
                map (\<lambda>chunk. Send (InstallRequest_payload (Data chunk)))
                  (chunk_bytes (chunk_size env) io) @
                [End, Recv, Close])
       \<and> (no_faults w \<longrightarrow> bundle = Str b \<longrightarrow> urlparse_scheme env b = Inr scheme \<longrightarrow> scheme \<noteq> [] \<longrightarrow>
            r = (case inbox w of
                   [] \<Rightarrow> Inl (AttributeError ''name'')
                 | m # ms \<Rightarrow> Inr (InstalledArtifact (resp_name m) (resp_uuid m))) \<and>
            t = [Open Install, Close, Open Install, Send (InstallRequest_destination destination),
                 Send (InstallRequest_payload (Url b)), End, Recv, Close])
       \<and> (no_faults w \<longrightarrow> bundle = Str b \<longrightarrow> urlparse_scheme env b = Inr [] \<longrightarrow>
            resolve_strict env b = Inr file_path \<longrightarrow> is_local self \<longrightarrow>
            r = (case inbox w of
                   [] \<Rightarrow> Inl (AttributeError ''name'')
                 | m # ms \<Rightarrow> Inr (InstalledArtifact (resp_name m) (resp_uuid m))) \<and>
            t = [Open Install, Close, Open Install, Send (InstallRequest_destination destination),
                 Send (InstallRequest_payload (File_path file_path)), End, Recv, Close])
       \<and> (no_faults w \<longrightarrow> bundle = Str b \<longrightarrow> urlparse_scheme env b = Inr [] \<longrightarrow>
            resolve_strict env b = Inr file_path \<longrightarrow> \<not> is_local self \<longrightarrow>
            pack env False [file_path] = Inr archive \<longrightarrow>
            r = (case inbox w of
                   [] \<Rightarrow> Inl (AttributeError ''name'')
                 | m # ms \<Rightarrow> Inr (InstalledArtifact (resp_name m) (resp_uuid m))) \<and>
            t = Open Install # Send (InstallRequest_destination destination) #
                map (\<lambda>chunk. Send (InstallRequest_payload (Data chunk)))
                  (chunk_bytes (block_size env) archive) @
                [End, Recv, Close])"
  using install_sent_frames [OF run] install_quiet_rows [OF run, of io b scheme file_path archive]
  by (intro conjI) (elim conjE, assumption)+

lemma install_remote_run:
  "install_to_destination (example_env remote_companion) remote_companion (Str ''a.app'') APP
       (quiet [Response ''a'' ''u'' []]) =
     (Inr (InstalledArtifact ''a'' ''u''),
      [Open Install, Send (InstallRequest_destination APP),
       Send (InstallRequest_payload (Data [1, 2])), Send (InstallRequest_payload (Data [3])),
       End, Recv, Close],
      quiet [])"
  by code_simp

theorem install_frame_kind_witness:
  "no_faults (faulty [None, None] [Response ''a'' ''u'' []]) \<and>
   result_of (install_to_destination (example_env local_companion) local_companion
        (Str ''https://x/a.ipa'') XCTEST (faulty [None, None] [Response ''a'' ''u'' []])) =
     Inr (InstalledArtifact ''a'' ''u'') \<and>
   events_of (install_to_destination (example_env local_companion) local_companion
        (Str ''https://x/a.ipa'') XCTEST (faulty [None, None] [Response ''a'' ''u'' []])) =
     [Open Install, Close, Open Install, Send (InstallRequest_destination XCTEST),
      Send (InstallRequest_payload (Url ''https://x/a.ipa'')), End, Recv, Close] \<and>
   result_of (install_to_destination (example_env local_companion) local_companion
        (Str ''a.app'') XCTEST (faulty [None, None] [Response ''a'' ''u'' []])) =
     Inr (InstalledArtifact ''a'' ''u'') \<and>
   events_of (install_to_destination (example_env local_companion) local_companion
        (Str ''a.app'') XCTEST (faulty [None, None] [Response ''a'' ''u'' []])) =
     [Open Install, Close, Open Install, Send (InstallRequest_destination XCTEST),
      Send (InstallRequest_payload (File_path ''/tmp/a.app'')), End, Recv, Close] \<and>
   result_of (install_to_destination (example_env remote_companion) remote_companion
        (Str ''a.app'') XCTEST (faulty [None, None] [Response ''a'' ''u'' []])) =
     Inr (InstalledArtifact ''a'' ''u'') \<and>
   events_of (install_to_destination (example_env remote_companion) remote_companion
        (Str ''a.app'') XCTEST (faulty [None, None] [Response ''a'' ''u'' []])) =
     [Open Install, Send (InstallRequest_destination XCTEST),
      Send (InstallRequest_payload (Data [1, 2])), Send (InstallRequest_payload (Data [3])),
      End, Recv, Close] \<and>
   result_of (install_to_destination (example_env remote_companion) remote_companion
        (IO [7, 8, 9, 10, 11]) XCTEST (faulty [None, None] [Response ''a'' ''u'' []])) =
     Inr (InstalledArtifact ''a'' ''u'') \<and>
   events_of (install_to_destination (example_env remote_companion) remote_companion
        (IO [7, 8, 9, 10, 11]) XCTEST (faulty [None, None] [Response ''a'' ''u'' []])) =
     [Open Install, Send (InstallRequest_destination XCTEST),
      Send (InstallRequest_payload (Data [7, 8])), Send (InstallRequest_payload (Data [9, 10])),
      Send (InstallRequest_payload (Data [11])), End, Recv, Close] \<and>
   (\<exists>src. spec_bundle_source (example_env local_companion) (Str ''https://x/a.ipa'') = Some src \<and>
      kind_of (InstallRequest_payload (Url ''https://x/a.ipa'')) =
        spec_frame_kind (spec_select src (is_local local_companion))) \<and>
   (\<exists>src. spec_bundle_source (example_env remote_companion) (IO [7, 8, 9, 10, 11]) = Some src \<and>
      kind_of (InstallRequest_payload (Data [11])) =
        spec_frame_kind (spec_select src (is_local remote_companion)))"
proof -
  have q: "no_faults (faulty [None, None] [Response ''a'' ''u'' []])"
    by (simp add: no_faults_def faulty_def)
  have i: "inbox (faulty [None, None] [Response ''a'' ''u'' []]) = [Response ''a'' ''u'' []]"
    by (simp add: faulty_def)
  have l: "is_local local_companion" "\<not> is_local remote_companion"
    by (simp_all add: local_companion_def remote_companion_def)
  have u: "urlparse_scheme (example_env local_companion) ''https://x/a.ipa'' = Inr ''https''"
    "''https'' \<noteq> []"
    by (simp_all add: example_env_def)
  have p: "urlparse_scheme (example_env local_companion) ''a.app'' = Inr []"
    "resolve_strict (example_env local_companion) ''a.app'' = Inr ''/tmp/a.app''"
    "urlparse_scheme (example_env remote_companion) ''a.app'' = Inr []"
    "resolve_strict (example_env remote_companion) ''a.app'' = Inr ''/tmp/a.app''"
    "pack (example_env remote_companion) False [''/tmp/a.app''] = Inr [1, 2, 3]"
    by (simp_all add: example_env_def)
  have k: "chunk_bytes (block_size (example_env remote_companion)) [1, 2, 3] = [[1, 2], [3]]"
    "chunk_bytes (chunk_size (example_env remote_companion)) [7, 8, 9, 10, 11] =
       [[7, 8], [9, 10], [11]]"
    by (simp_all add: example_env_def chunk_bytes.simps)
  obtain r_url t_url w_url where run_url:
    "install_to_destination (example_env local_companion) local_companion
        (Str ''https://x/a.ipa'') XCTEST (faulty [None, None] [Response ''a'' ''u'' []]) = (r_url, t_url, w_url)"
    by (cases "install_to_destination (example_env local_companion) local_companion
        (Str ''https://x/a.ipa'') XCTEST (faulty [None, None] [Response ''a'' ''u'' []])") auto
  from install_frame_kind [OF run_url, THEN conjunct2, THEN conjunct2, THEN conjunct2, THEN conjunct2, THEN conjunct1,
      rule_format, OF q refl u]
  have url:
    "result_of (install_to_destination (example_env local_companion) local_companion
        (Str ''https://x/a.ipa'') XCTEST (faulty [None, None] [Response ''a'' ''u'' []])) =
     Inr (InstalledArtifact ''a'' ''u'')"
    "events_of (install_to_destination (example_env local_companion) local_companion
        (Str ''https://x/a.ipa'') XCTEST (faulty [None, None] [Response ''a'' ''u'' []])) =
     [Open Install, Close, Open Install, Send (InstallRequest_destination XCTEST),
      Send (InstallRequest_payload (Url ''https://x/a.ipa'')), End, Recv, Close]"
    by (simp_all add: run_url result_of_def events_of_def i k)
  obtain r_path t_path w_path where run_path:
    "install_to_destination (example_env local_companion) local_companion
        (Str ''a.app'') XCTEST (faulty [None, None] [Response ''a'' ''u'' []]) = (r_path, t_path, w_path)"
    by (cases "install_to_destination (example_env local_companion) local_companion
        (Str ''a.app'') XCTEST (faulty [None, None] [Response ''a'' ''u'' []])") auto
  from install_frame_kind [OF run_path, THEN conjunct2, THEN conjunct2, THEN conjunct2, THEN conjunct2, THEN conjunct2, THEN conjunct1,
      rule_format, OF q refl p(1,2) l(1)]
  have path:
    "result_of (install_to_destination (example_env local_companion) local_companion
        (Str ''a.app'') XCTEST (faulty [None, None] [Response ''a'' ''u'' []])) =
     Inr (InstalledArtifact ''a'' ''u'')"
    "events_of (install_to_destination (example_env local_companion) local_companion
        (Str ''a.app'') XCTEST (faulty [None, None] [Response ''a'' ''u'' []])) =
     [Open Install, Close, Open Install, Send (InstallRequest_destination XCTEST),
      Send (InstallRequest_payload (File_path ''/tmp/a.app'')), End, Recv, Close]"
    by (simp_all add: run_path result_of_def events_of_def i k)
  obtain r_tar t_tar w_tar where run_tar:
    "install_to_destination (example_env remote_companion) remote_companion
        (Str ''a.app'') XCTEST (faulty [None, None] [Response ''a'' ''u'' []]) = (r_tar, t_tar, w_tar)"
    by (cases "install_to_destination (example_env remote_companion) remote_companion
        (Str ''a.app'') XCTEST (faulty [None, None] [Response ''a'' ''u'' []])") auto
  from install_frame_kind [OF run_tar, THEN conjunct2, THEN conjunct2, THEN conjunct2, THEN conjunct2, THEN conjunct2, THEN conjunct2,
      rule_format, OF q refl p(3,4) l(2) p(5)]
  have tar:
    "result_of (install_to_destination (example_env remote_companion) remote_companion
        (Str ''a.app'') XCTEST (faulty [None, None] [Response ''a'' ''u'' []])) =
     Inr (InstalledArtifact ''a'' ''u'')"
    "events_of (install_to_destination (example_env remote_companion) remote_companion
        (Str ''a.app'') XCTEST (faulty [None, None] [Response ''a'' ''u'' []])) =
     [Open Install, Send (InstallRequest_destination XCTEST),
      Send (InstallRequest_payload (Data [1, 2])), Send (InstallRequest_payload (Data [3])),
      End, Recv, Close]"
    by (simp_all add: run_tar result_of_def events_of_def i k)
  obtain r_io t_io w_io where run_io:
    "install_to_destination (example_env remote_companion) remote_companion
        (IO [7, 8, 9, 10, 11]) XCTEST (faulty [None, None] [Response ''a'' ''u'' []]) = (r_io, t_io, w_io)"
    by (cases "install_to_destination (example_env remote_companion) remote_companion
        (IO [7, 8, 9, 10, 11]) XCTEST (faulty [None, None] [Response ''a'' ''u'' []])") auto
  from install_frame_kind [OF run_io, THEN conjunct2, THEN conjunct2, THEN conjunct2, THEN conjunct1,
      rule_format, OF q refl]
  have io:
    "result_of (install_to_destination (example_env remote_companion) remote_companion
        (IO [7, 8, 9, 10, 11]) XCTEST (faulty [None, None] [Response ''a'' ''u'' []])) =
     Inr (InstalledArtifact ''a'' ''u'')"
    "events_of (install_to_destination (example_env remote_companion) remote_companion
        (IO [7, 8, 9, 10, 11]) XCTEST (faulty [None, None] [Response ''a'' ''u'' []])) =
     [Open Install, Send (InstallRequest_destination XCTEST),
      Send (InstallRequest_payload (Data [7, 8])), Send (InstallRequest_payload (Data [9, 10])),
      Send (InstallRequest_payload (Data [11])), End, Recv, Close]"
    by (simp_all add: run_io result_of_def events_of_def i k)
  from url(2) have su: "InstallRequest_payload (Url ''https://x/a.ipa'') \<in> set (sent t_url)"
    by (simp add: run_url events_of_def)
  from install_frame_kind [OF run_url, THEN conjunct1, rule_format, OF su]
  have ku: "\<exists>src. spec_bundle_source (example_env local_companion) (Str ''https://x/a.ipa'') = Some src \<and>
      kind_of (InstallRequest_payload (Url ''https://x/a.ipa'')) =
        spec_frame_kind (spec_select src (is_local local_companion))"
    by simp
  from io(2) have si: "InstallRequest_payload (Data [11]) \<in> set (sent t_io)"
    by (simp add: run_io events_of_def)
  from install_frame_kind [OF run_io, THEN conjunct1, rule_format, OF si]
  have ki: "\<exists>src. spec_bundle_source (example_env remote_companion) (IO [7, 8, 9, 10, 11]) = Some src \<and>
      kind_of (InstallRequest_payload (Data [11])) =
        spec_frame_kind (spec_select src (is_local remote_companion))"
    by simp
  from q url path tar io ku ki show ?thesis
    by (intro conjI) assumption+
qed

section \<open>Receiving\<close>

lemma receives_append [simp]: "receives (xs @ ys) = receives xs + receives ys"
  by (simp add: receives_def)

lemma receives_map_Send [simp]: "receives (map Send fs) = 0"
  by (induction fs) (auto simp: receives_def)

lemma receives_Cons [simp]: "receives (e # es) = (if e = Recv then 1 else 0) + receives es"
  by (simp add: receives_def)

lemma receives_Nil [simp]: "receives [] = 0"
  by (simp add: receives_def)

lemma receives_unpacking [simp]:
  "receives (concat (map (\<lambda>m. [Recv, Unpack p (f m)]) ms)) = length ms"
  by (induction ms) auto

lemma session_receives:
  assumes "session m plan r t" and "is_ok r"
  shows "receives t = 1"
  using session_sent(2) [OF assms] by simp

lemma recv_after_end_only_sends [simp]:
  "recv_after_end b (map Send fs)"
  using recv_after_end_sends [of b fs "[]"] by simp

lemma recv_after_end_mapped_sends [simp]:
  "recv_after_end b (map (Send \<circ> f) xs @ es) = recv_after_end b es"
  "recv_after_end b (map (Send \<circ> f) xs)"
  using recv_after_end_sends [of b "map f xs" es] recv_after_end_only_sends [of b "map f xs"]
  by simp_all

lemma install_log_shape:
  assumes run: "install_to_destination env self bundle destination w = (r, t, w')"
  shows "(t = [] \<and> \<not> is_ok r) \<or> (t = [Open Install] \<and> \<not> is_ok r) \<or>
         (\<exists>plan. session Install plan r t) \<or>
         (\<exists>plan t2. t = Open Install # Close # t2 \<and> session Install plan r t2)"
proof -
  have direct: ?thesis
    if "bind_io (return_io g)
       (\<lambda>generator.
          with_stream Install
            (bind_io (send_message (InstallRequest_destination destination)) (\<lambda>_.
             bind_io (drain_to_stream generator) (\<lambda>response.
               (case response of
                  None \<Rightarrow> raise_io (AttributeError ''name'')
                | Some r \<Rightarrow> return_io (InstalledArtifact (resp_name r) (resp_uuid r))))))) w
       = (r, t, w')" for g
    using that install_stream_shape [of "InstallRequest_destination destination" g w r t w']
    by (auto simp: return_bind)
  have two: ?thesis
    if "bind_io (with_stream Install (return_io g))
       (\<lambda>generator.
          with_stream Install
            (bind_io (send_message (InstallRequest_destination destination)) (\<lambda>_.
             bind_io (drain_to_stream generator) (\<lambda>response.
               (case response of
                  None \<Rightarrow> raise_io (AttributeError ''name'')
                | Some r \<Rightarrow> return_io (InstalledArtifact (resp_name r) (resp_uuid r))))))) w
       = (r, t, w')" for g
    using that
  proof (cases rule: first_stream_shape)
    case refused
    then show ?thesis by simp
  next
    case (entered w1 t2)
    from install_stream_shape [OF entered(1)] entered(2) show ?thesis by blast
  qed
  show ?thesis
  proof (cases "bundle")
    case (IO io)
    with run show ?thesis
      by (intro direct [of "generate_io_chunks env io"]) (simp add: install_to_destination_def)
  next
    case (Str b)
    show ?thesis
    proof (cases "urlparse_scheme env b")
      case (Inl e)
      with run Str have "t = []" "\<not> is_ok r"
        by (auto simp: install_to_destination_def raise_bind raise_io_eq)
      then show ?thesis by simp
    next
      case (Inr scheme)
      show ?thesis
      proof (cases "scheme \<noteq> []")
        case True
        with run Str Inr show ?thesis
          by (intro two [of "generate_requests [InstallRequest_payload (Url b)]"])
             (simp add: install_to_destination_def)
      next
        case False
        show ?thesis
        proof (cases "resolve_strict env b")
          case failed: (Inl e)
          with run Str Inr False have "t = []" "\<not> is_ok r"
            by (auto simp: install_to_destination_def raise_bind raise_io_eq)
          then show ?thesis by simp
        next
          case resolved: (Inr file_path)
          show ?thesis
          proof (cases "is_local self")
            case True
            with run Str Inr False resolved show ?thesis
              by (intro two [of "generate_requests [InstallRequest_payload (File_path file_path)]"])
                 (simp add: install_to_destination_def)
          next
            case remote: False
            with run Str Inr False resolved show ?thesis
              by (intro direct [of "generate_binary_chunks env file_path destination"])
                 (simp add: install_to_destination_def)
          qed
        qed
      qed
    qed
  qed
qed

lemma install_receives:
  assumes run: "install_to_destination env self bundle destination w = (r, t, w')"
  shows "recv_after_end False t \<and> (is_ok r \<longrightarrow> receives t = 1)"
  using install_log_shape [OF run]
  by (auto dest: session_recv_after_end session_receives)

lemma hid_body_receives:
  assumes run: "hid_body env self event_iterator w = (r, t, w')"
  shows "recv_after_end False t"
  using run unfolding hid_body_def
  by (elim with_stream_cases bind_io_cases)
     (auto dest!: drain_to_stream_shape recv_return_shape recv_message_cases simp: return_io_eq)


lemma install_receives_of:
  "recv_after_end False (events_of (install_to_destination env self bundle destination w)) \<and>
   (is_ok (result_of (install_to_destination env self bundle destination w)) \<longrightarrow>
      receives (events_of (install_to_destination env self bundle destination w)) = 1)"
proof -
  obtain r t w' where run: "install_to_destination env self bundle destination w = (r, t, w')"
    by (cases "install_to_destination env self bundle destination w") auto
  from install_receives [OF run] show ?thesis
    by (simp add: run events_of_def result_of_def)
qed

lemma push_receives_of:
  assumes "get_companion_info env = Inr self"
  shows "recv_after_end False (events_of (push env src_paths bundle_id dest_path w)) \<and>
   (is_ok (result_of (push env src_paths bundle_id dest_path w)) \<longrightarrow>
      receives (events_of (push env src_paths bundle_id dest_path w)) = 1)"
proof -
  obtain r t w' where run: "push_body env self src_paths bundle_id dest_path w = (r, t, w')"
    by (cases "push_body env self src_paths bundle_id dest_path w") auto
  from push_body_session [OF run] have "recv_after_end False t" "is_ok r \<longrightarrow> receives t = 1"
    by (blast dest: session_recv_after_end session_receives)+
  with assms show ?thesis
    by (simp add: push_def client_call_Inr run events_of_def result_of_def)
qed

lemma add_media_receives_of:
  assumes "get_companion_info env = Inr self"
  shows "recv_after_end False (events_of (add_media env file_paths w)) \<and>
   (is_ok (result_of (add_media env file_paths w)) \<longrightarrow>
      receives (events_of (add_media env file_paths w)) = 1)"
proof -
  obtain r t w' where run: "add_media_body env self file_paths w = (r, t, w')"
    by (cases "add_media_body env self file_paths w") auto
  from add_media_body_session [OF run] have "recv_after_end False t" "is_ok r \<longrightarrow> receives t = 1"
    by (blast dest: session_recv_after_end session_receives)+
  with assms show ?thesis
    by (simp add: add_media_def client_call_Inr run events_of_def result_of_def)
qed

lemma pull_receives_of:
  assumes "get_companion_info env = Inr self"
  shows "recv_after_end False (events_of (pull env bundle_id src_path dest_path w)) \<and>
   (is_ok (result_of (pull env bundle_id src_path dest_path w)) \<longrightarrow>
      receives (events_of (pull env bundle_id src_path dest_path w)) =
        (if is_local self then 1 else Suc (length (inbox w))))"
proof -
  obtain r t w' where run: "pull_body env self bundle_id src_path dest_path w = (r, t, w')"
    by (cases "pull_body env self bundle_id src_path dest_path w") auto
  note s = pull_body_shape [OF run]
  from s have a: "recv_after_end False t" by blast
  have b: "receives t = (if is_local self then 1 else Suc (length (inbox w)))" if "is_ok r"
  proof (cases "is_local self")
    case True
    with s that have "t = [Open Pull, Send (PullRequest bundle_id src_path (Some dest_path)), End, Recv, Close]"
      by blast
    with True show ?thesis by simp
  next
    case False
    with s that have "t = [Open Pull, Send (PullRequest bundle_id src_path None), End] @
                concat (map (\<lambda>m. [Recv, Unpack dest_path (resp_data m)]) (inbox w)) @
                [Recv, Close]"
      by blast
    with False show ?thesis by simp
  qed
  from a b assms show ?thesis
    by (simp add: pull_def client_call_Inr run events_of_def result_of_def)
qed

lemma hid_receives_of:
  assumes "get_companion_info env = Inr self"
  shows "recv_after_end False (events_of (hid env event_iterator w))"
proof -
  obtain r t w' where run: "hid_body env self event_iterator w = (r, t, w')"
    by (cases "hid_body env self event_iterator w") auto
  from hid_body_receives [OF run] assms show ?thesis
    by (simp add: hid_def client_call_Inr run events_of_def)
qed

lemma hid_local_run:
  "hid (example_env local_companion) (Yield (HIDEvent 0) Done) (quiet [Response [] [] []]) =
     (Inr (), [Open Hid, Send (HIDEventRequest (HIDEvent 0)), End, Recv, Recv, Close], quiet [])"
  by code_simp

text \<open>
  C4, as stated: every streaming operation receives exactly once per call. A pull from a
  remote companion that streams two chunks back receives three times, and a hid call
  receives twice: once inside the drain and once more after it.
\<close>

theorem single_receive_counterexample:
  "is_ok (result_of (pull (example_env remote_companion) ''com.x'' ''Documents/a'' ''out''
             (quiet [Response [] [] [1, 2], Response [] [] [3]]))) \<and>
   receives (events_of (pull (example_env remote_companion) ''com.x'' ''Documents/a'' ''out''
             (quiet [Response [] [] [1, 2], Response [] [] [3]]))) = 3 \<and>
   is_ok (result_of (hid (example_env local_companion) (Yield (HIDEvent 0) Done)
             (quiet [Response [] [] []]))) \<and>
   events_of (hid (example_env local_companion) (Yield (HIDEvent 0) Done)
             (quiet [Response [] [] []])) =
     [Open Hid, Send (HIDEventRequest (HIDEvent 0)), End, Recv, Recv, Close] \<and>
   receives (events_of (hid (example_env local_companion) (Yield (HIDEvent 0) Done)
             (quiet [Response [] [] []]))) = 2"
  by (simp add: pull_remote_run hid_local_run result_of_def events_of_def)

text \<open>
  C4, amended: in install, push, pull, add_media and hid no receive is performed on a
  stream before its end has been signalled. An install, push or add_media that returns, and
  a pull from a local companion that returns, has received exactly once. A pull from a
  remote companion that returns has received once per incoming chunk and once more to
  learn that the companion ended the stream. Nothing is said about the number of receives
  of hid.
\<close>

theorem receive_after_end:
  assumes companion: "get_companion_info env = Inr self"
  shows "recv_after_end False (events_of (install_to_destination env self source destination w))
       \<and> recv_after_end False (events_of (push env src_paths bundle_id dest_path w))
       \<and> recv_after_end False (events_of (pull env app_id src_path dest_path w))
       \<and> recv_after_end False (events_of (add_media env file_paths w))
       \<and> recv_after_end False (events_of (hid env event_iterator w))
       \<and> (is_ok (result_of (install_to_destination env self source destination w)) \<longrightarrow>
            receives (events_of (install_to_destination env self source destination w)) = 1)
       \<and> (is_ok (result_of (push env src_paths bundle_id dest_path w)) \<longrightarrow>
            receives (events_of (push env src_paths bundle_id dest_path w)) = 1)
       \<and> (is_ok (result_of (add_media env file_paths w)) \<longrightarrow>
            receives (events_of (add_media env file_paths w)) = 1)
       \<and> (is_ok (result_of (pull env app_id src_path dest_path w)) \<longrightarrow>
            receives (events_of (pull env app_id src_path dest_path w)) =
              (if is_local self then 1 else Suc (length (inbox w))))"
  using install_receives_of [of env self source destination w]
    push_receives_of [OF companion, of src_paths bundle_id dest_path w]
    pull_receives_of [OF companion, of app_id src_path dest_path w]
    add_media_receives_of [OF companion, of file_paths w]
    hid_receives_of [OF companion, of event_iterator w]
  by blast

theorem receive_after_end_witness:
  "get_companion_info (example_env remote_companion) = Inr remote_companion \<and>
   is_ok (result_of (install_to_destination (example_env remote_companion) remote_companion
            (Str ''a.app'') APP (quiet [Response ''a'' ''u'' []]))) \<and>
   receives (events_of (install_to_destination (example_env remote_companion) remote_companion
            (Str ''a.app'') APP (quiet [Response ''a'' ''u'' []]))) = 1 \<and>
   is_ok (result_of (push (example_env remote_companion) [''x''] ''b'' ''d''
            (quiet [Response [] [] []]))) \<and>
   receives (events_of (push (example_env remote_companion) [''x''] ''b'' ''d''
            (quiet [Response [] [] []]))) = 1 \<and>
   is_ok (result_of (add_media (example_env remote_companion) [''a.png'', ''b.png'']
            (quiet [Response [] [] []]))) \<and>
   receives (events_of (add_media (example_env remote_companion) [''a.png'', ''b.png'']
            (quiet [Response [] [] []]))) = 1 \<and>
   is_ok (result_of (pull (example_env remote_companion) ''com.x'' ''Documents/a'' ''out''
            (quiet [Response [] [] [1, 2], Response [] [] [3]]))) \<and>
   receives (events_of (pull (example_env remote_companion) ''com.x'' ''Documents/a'' ''out''
            (quiet [Response [] [] [1, 2], Response [] [] [3]]))) = 3 \<and>
   recv_after_end False (events_of (hid (example_env remote_companion) (Yield (HIDEvent 0) Done)
            (quiet [Response [] [] []])))"
proof -
  have c: "get_companion_info (example_env remote_companion) = Inr remote_companion"
    by (simp add: example_env_def)
  have l: "\<not> is_local remote_companion"
    by (simp add: remote_companion_def)
  have n: "Suc (length (inbox (quiet [Response [] [] [1, 2], Response [] [] [3]]))) = 3"
    by (simp add: quiet_def)
  have ok:
    "is_ok (result_of (install_to_destination (example_env remote_companion) remote_companion
            (Str ''a.app'') APP (quiet [Response ''a'' ''u'' []])))"
    "is_ok (result_of (push (example_env remote_companion) [''x''] ''b'' ''d''
            (quiet [Response [] [] []])))"
    "is_ok (result_of (add_media (example_env remote_companion) [''a.png'', ''b.png'']
            (quiet [Response [] [] []])))"
    "is_ok (result_of (pull (example_env remote_companion) ''com.x'' ''Documents/a'' ''out''
            (quiet [Response [] [] [1, 2], Response [] [] [3]])))"
    by (simp_all add: install_remote_run push_example_run add_media_remote_run pull_remote_run
        result_of_def)
  from receive_after_end [OF c, where source = "Str ''a.app''" and destination = APP
      and w = "quiet [Response ''a'' ''u'' []]"] ok(1)
  have i: "receives (events_of (install_to_destination (example_env remote_companion) remote_companion
            (Str ''a.app'') APP (quiet [Response ''a'' ''u'' []]))) = 1"
    by blast
  from receive_after_end [OF c, where src_paths = "[''x'']" and bundle_id = "''b''"
      and dest_path = "''d''" and file_paths = "[''a.png'', ''b.png'']"
      and event_iterator = "Yield (HIDEvent 0) Done"
      and w = "quiet [Response [] [] []]"] ok(2,3)
  have p: "receives (events_of (push (example_env remote_companion) [''x''] ''b'' ''d''
            (quiet [Response [] [] []]))) = 1"
    and a: "receives (events_of (add_media (example_env remote_companion) [''a.png'', ''b.png'']
            (quiet [Response [] [] []]))) = 1"
    and h: "recv_after_end False (events_of (hid (example_env remote_companion)
            (Yield (HIDEvent 0) Done) (quiet [Response [] [] []])))"
    by blast+
  from receive_after_end [OF c, where app_id = "''com.x''" and src_path = "''Documents/a''"
      and dest_path = "''out''" and w = "quiet [Response [] [] [1, 2], Response [] [] [3]]"]
    ok(4) l
  have "receives (events_of (pull (example_env remote_companion) ''com.x'' ''Documents/a'' ''out''
            (quiet [Response [] [] [1, 2], Response [] [] [3]]))) =
        Suc (length (inbox (quiet [Response [] [] [1, 2], Response [] [] [3]])))"
    by simp
  with n have u: "receives (events_of (pull (example_env remote_companion) ''com.x''
            ''Documents/a'' ''out'' (quiet [Response [] [] [1, 2], Response [] [] [3]]))) = 3"
    by simp
  from c ok i p a h u show ?thesis
    by blast
qed

end
